theory Spec2Isabelle
  imports Complex_Main
begin

section \<open>Conventions of the embedding\<close>

text \<open>
  The Python sources under \<^verbatim>\<open>src/backend\<close> are embedded function by function.
  Python floats are read as the real numbers their literals denote (type \<^typ>\<open>real\<close>;
  where a tolerance is at stake, the rounding of the float operations is explicit),
  Python ints as \<^typ>\<open>int\<close>, \<^verbatim>\<open>len\<close> as \<^const>\<open>length\<close>.  A dictionary with a
  fixed set of optional keys is a record of \<^typ>\<open>'a option\<close> fields, \<^const>\<open>None\<close>
  meaning that the key is absent; a key that is present holds a value of the type the
  signatures and the test fixtures of the sources give it (a date is a \<^verbatim>\<open>str\<close>, as
  \<^verbatim>\<open>_extract_year(self, date_str: str)\<close> declares).  An exception is a value of type
  \<open>error\<close>, returned as \<^const>\<open>Inl\<close>; \<open>ExternalError\<close> stands for whatever an
  external library raises.
\<close>

datatype error = KeyError | ValueError | ZeroDivisionError | OverflowError | ExternalError

text \<open>\<^verbatim>\<open>d.get(key, default)\<close>\<close>

definition dict_get :: "'a option \<Rightarrow> 'a \<Rightarrow> 'a" where
  "dict_get v dflt = (case v of None \<Rightarrow> dflt | Some x \<Rightarrow> x)"

text \<open>
  \<^verbatim>\<open>sorted(xs, key=key, reverse=True)\<close>: descending by key, and stable (elements with
  equal keys keep their order), which is a stable ascending sort of the reversed list,
  reversed.
\<close>

definition sorted_reverse :: "('a \<Rightarrow> 'k::linorder) \<Rightarrow> 'a list \<Rightarrow> 'a list" where
  "sorted_reverse key xs = rev (sort_key key (rev xs))"

text \<open>
  \<^verbatim>\<open>str.lower()\<close> and the substring test \<^verbatim>\<open>p in s\<close>.  Strings are ASCII: the marker
  phrases and polarity terms of the sources are, and no other character lowers to a
  letter that occurs in them.
\<close>

definition lower_char :: "char \<Rightarrow> char" where
  "lower_char c =
     dict_get (map_of (zip ''ABCDEFGHIJKLMNOPQRSTUVWXYZ'' ''abcdefghijklmnopqrstuvwxyz'') c) c"

definition lower :: "string \<Rightarrow> string" where
  "lower s = map lower_char s"

fun starts_with :: "string \<Rightarrow> string \<Rightarrow> bool" where
  "starts_with [] s = True"
| "starts_with (p # ps) [] = False"
| "starts_with (p # ps) (c # cs) = (p = c \<and> starts_with ps cs)"

fun substring_in :: "string \<Rightarrow> string \<Rightarrow> bool" where
  "substring_in p [] = (p = [])"
| "substring_in p (c # cs) = (starts_with p (c # cs) \<or> substring_in p cs)"

section \<open>\<^verbatim>\<open>strategy/suggestion_engine.py\<close>\<close>

datatype StrategyType = AGGRESSIVE | DEFENSIVE | BALANCED | PRECEDENT_FOCUSED | POLICY_BASED

record Strategy =
  s_type :: StrategyType
  s_description :: string
  recommended_actions :: "string list"
  priority :: int
  success_probability :: real

text \<open>The \<^verbatim>\<open>analysis_results\<close> dictionary, restricted to the keys the engine reads.\<close>

record analysis_results =
  evidence_score :: "real option"
  precedent_score :: "real option"
  coherence_score :: "real option"
  counter_argument_strength :: "real option"
  opposing_evidence_strength :: "real option"

definition strategy_templates :: "StrategyType \<Rightarrow> (string \<times> string list) option" where
  "strategy_templates t =
     (case t of
        AGGRESSIVE \<Rightarrow> Some (''Focus on strong offensive arguments and direct challenges'',
          [''Challenge opposing evidence validity'', ''Present strongest arguments first'',
           ''Emphasize favorable precedents''])
      | DEFENSIVE \<Rightarrow> Some (''Build strong defensive position and counter-arguments'',
          [''Strengthen procedural compliance'', ''Prepare detailed counter-arguments'',
           ''Focus on evidence reliability''])
      | BALANCED \<Rightarrow> Some (''Maintain balanced approach'',
          [''Alternate between offensive and defensive points'',
           ''Address key issues systematically'',
           ''Maintain credibility through balanced presentation''])
      | _ \<Rightarrow> None)"

definition evaluate_case_strength :: "analysis_results \<Rightarrow> real" where
  "evaluate_case_strength analysis =
     (let strength_factors =
            [dict_get (evidence_score analysis) 0.5,
             dict_get (precedent_score analysis) 0.5,
             dict_get (coherence_score analysis) 0.5]
      in sum_list strength_factors / real (length strength_factors))"

definition evaluate_opposition_strength :: "analysis_results \<Rightarrow> real" where
  "evaluate_opposition_strength analysis =
     (let opposition_factors =
            [dict_get (counter_argument_strength analysis) 0.5,
             dict_get (opposing_evidence_strength analysis) 0.5]
      in sum_list opposition_factors / real (length opposition_factors))"

text \<open>
  A primary strategy, built from \<^verbatim>\<open>self.strategy_templates[t]\<close> with priority 1.
  \<^verbatim>\<open>_generate_primary_strategy\<close> reads the three templates the table has, so the
  branch of a missing template is never taken.
\<close>

definition from_template :: "StrategyType \<Rightarrow> real \<Rightarrow> Strategy" where
  "from_template t p =
     (case strategy_templates t of
        Some (d, acts) \<Rightarrow>
          \<lparr>s_type = t, s_description = d, recommended_actions = acts,
           priority = 1, success_probability = p\<rparr>
      | None \<Rightarrow>
          \<lparr>s_type = t, s_description = [], recommended_actions = [],
           priority = 1, success_probability = p\<rparr>)"

definition generate_primary_strategy :: "real \<Rightarrow> real \<Rightarrow> Strategy" where
  "generate_primary_strategy case_strength opposition_strength =
     (if case_strength > 0.7 \<and> opposition_strength < 0.5 then
        from_template AGGRESSIVE case_strength
      else if opposition_strength > 0.7 then
        from_template DEFENSIVE (1 - opposition_strength)
      else
        from_template BALANCED ((case_strength + (1 - opposition_strength)) / 2))"

definition generate_supplementary_strategies :: "analysis_results \<Rightarrow> Strategy list" where
  "generate_supplementary_strategies analysis =
     (if dict_get (precedent_score analysis) 0 > 0.7 then
        [\<lparr>s_type = PRECEDENT_FOCUSED,
          s_description = ''Leverage strong precedential support'',
          recommended_actions = [''Focus on precedent application'', ''Distinguish opposing cases''],
          priority = 2,
          success_probability = dict_get (precedent_score analysis) 0\<rparr>]
      else [])"

definition suggest :: "analysis_results \<Rightarrow> Strategy list" where
  "suggest analysis =
     (let case_strength = evaluate_case_strength analysis;
          opposition_strength = evaluate_opposition_strength analysis;
          primary_strategy = generate_primary_strategy case_strength opposition_strength;
          strategies = [] @ [primary_strategy];
          supplementary = generate_supplementary_strategies analysis;
          strategies = strategies @ supplementary
      in sorted_reverse priority strategies)"

section \<open>\<^verbatim>\<open>utils/validators.py\<close> and \<^verbatim>\<open>weakness/analysis.py\<close>\<close>

record Weakness =
  description :: string
  severity :: real
  w_type :: string
  potential_remedies :: "string list"

text \<open>An entry of \<^verbatim>\<open>argument["precedents"]\<close>, read with \<^verbatim>\<open>.get("distinguishable", False)\<close>.\<close>

record precedent =
  distinguishable :: "bool option"

text \<open>The argument dictionary handed to \<^verbatim>\<open>WeaknessAnalysis.analyze\<close>.\<close>

record argument =
  arg_text :: "string option"
  arg_type :: "string option"
  evidence :: "string list option"
  evidence_quality :: "real option"
  precedents :: "precedent list option"

text \<open>
  \<^verbatim>\<open>self.nlp\<close> (spaCy) is external.  It is a parameter: the function from a text to the
  texts of \<^verbatim>\<open>doc.sents\<close>, or to the exception the pipeline raises.
\<close>

type_synonym nlp = "string \<Rightarrow> error + string list"

definition validate_argument :: "argument \<Rightarrow> string option" where
  "validate_argument a =
     (if arg_text a = None then Some ''Missing required field: text''
      else if arg_type a = None then Some ''Missing required field: type''
      else if evidence a = None then Some ''Missing required field: evidence''
      else None)"

definition weakness_patterns :: "string \<rightharpoonup> string list" where
  "weakness_patterns = map_of
     [(''evidence_gaps'', [''lack of evidence'', ''insufficient proof'', ''no direct evidence'']),
      (''logical_flaws'', [''circular reasoning'', ''false equivalence'', ''hasty generalization'']),
      (''precedent_issues'',
         [''distinguishable cases'', ''outdated precedent'', ''conflicting authorities''])]"

definition evidence_gap_weakness :: Weakness where
  "evidence_gap_weakness =
     \<lparr>description = ''Lack of supporting evidence'', severity = 0.8, w_type = ''evidence_gap'',
      potential_remedies =
        [''Gather additional documentary evidence'', ''Identify potential witnesses'',
         ''Consider expert testimony'']\<rparr>"

definition evidence_quality_weakness :: Weakness where
  "evidence_quality_weakness =
     \<lparr>description = ''Low quality or unreliable evidence'', severity = 0.7,
      w_type = ''evidence_quality'',
      potential_remedies =
        [''Strengthen chain of custody'', ''Obtain corroborating evidence'',
         ''Address authentication issues'']\<rparr>"

definition logical_flaw_weakness :: "string \<Rightarrow> Weakness" where
  "logical_flaw_weakness fallacy_type =
     \<lparr>description = ''Potential logical fallacy: '' @ fallacy_type, severity = 0.6,
      w_type = ''logical_flaw'',
      potential_remedies =
        [''Restructure argument logic'', ''Address causal relationships'',
         ''Strengthen logical connections'']\<rparr>"

definition precedent_weakness :: Weakness where
  "precedent_weakness =
     \<lparr>description = ''Distinguishable precedent'', severity = 0.5,
      w_type = ''precedent_weakness'',
      potential_remedies =
        [''Find more analogous cases'', ''Address distinguishing factors'',
         ''Emphasize policy considerations'']\<rparr>"

definition analyze_evidence :: "argument \<Rightarrow> Weakness list" where
  "analyze_evidence a =
     (let weaknesses = [];
          weaknesses =
            (if evidence a = None \<or> evidence a = Some []
             then weaknesses @ [evidence_gap_weakness] else weaknesses);
          weaknesses =
            (if (case evidence_quality a of None \<Rightarrow> False | Some q \<Rightarrow> q < 0.6)
             then weaknesses @ [evidence_quality_weakness] else weaknesses)
      in weaknesses)"

text \<open>
  \<^verbatim>\<open>for fallacy_type, patterns in item_list\<close> unpacks each item into two targets.  The
  items are strings, and a string unpacks into its characters: one of any other length
  than two raises ValueError.
\<close>

fun unpack2 :: "string \<Rightarrow> error + string \<times> string" where
  "unpack2 [a, b] = Inr ([a], [b])"
| "unpack2 item = Inl ValueError"

text \<open>
  The inner loop of \<^verbatim>\<open>_analyze_logic\<close> over the catalogue, for one sentence.
  \<^verbatim>\<open>patterns\<close> is a string here, so \<^verbatim>\<open>any(pattern in ... for pattern in patterns)\<close>
  ranges over its characters.
\<close>

fun logic_patterns_loop :: "string \<Rightarrow> string list \<Rightarrow> Weakness list \<Rightarrow> error + Weakness list" where
  "logic_patterns_loop sent [] weaknesses = Inr weaknesses"
| "logic_patterns_loop sent (item # items) weaknesses =
     (case unpack2 item of
        Inl e \<Rightarrow> Inl e
      | Inr (fallacy_type, patterns) \<Rightarrow>
          logic_patterns_loop sent items
            (if list_ex (\<lambda>pattern. substring_in [pattern] (lower sent)) patterns
             then weaknesses @ [logical_flaw_weakness fallacy_type]
             else weaknesses))"

fun logic_sents_loop :: "string list \<Rightarrow> Weakness list \<Rightarrow> error + Weakness list" where
  "logic_sents_loop [] weaknesses = Inr weaknesses"
| "logic_sents_loop (sent # sents) weaknesses =
     (case weakness_patterns ''logical_flaws'' of
        None \<Rightarrow> Inl KeyError
      | Some items \<Rightarrow>
          (case logic_patterns_loop sent items weaknesses of
             Inl e \<Rightarrow> Inl e
           | Inr weaknesses' \<Rightarrow> logic_sents_loop sents weaknesses'))"

definition analyze_logic :: "nlp \<Rightarrow> argument \<Rightarrow> error + Weakness list" where
  "analyze_logic nlp a =
     (case nlp (dict_get (arg_text a) []) of
        Inl e \<Rightarrow> Inl e
      | Inr sents \<Rightarrow> logic_sents_loop sents [])"

definition analyze_precedents :: "argument \<Rightarrow> Weakness list" where
  "analyze_precedents a =
     (case precedents a of
        None \<Rightarrow> []
      | Some ps \<Rightarrow>
          map (\<lambda>p. precedent_weakness) (filter (\<lambda>p. dict_get (distinguishable p) False) ps))"

definition prioritize_weaknesses :: "Weakness list \<Rightarrow> Weakness list" where
  "prioritize_weaknesses weaknesses = sorted_reverse severity weaknesses"

text \<open>The body of the \<^verbatim>\<open>try\<close> block of \<^verbatim>\<open>analyze\<close>: the loop over the arguments.\<close>

fun analyze_loop :: "nlp \<Rightarrow> argument list \<Rightarrow> Weakness list \<Rightarrow> error + Weakness list" where
  "analyze_loop nlp [] weaknesses = Inr weaknesses"
| "analyze_loop nlp (a # arguments) weaknesses =
     (if validate_argument a \<noteq> None then analyze_loop nlp arguments weaknesses
      else
        (let weaknesses = weaknesses @ analyze_evidence a in
         case analyze_logic nlp a of
           Inl e \<Rightarrow> Inl e
         | Inr logical_weaknesses \<Rightarrow>
             (let weaknesses = weaknesses @ logical_weaknesses;
                  weaknesses = weaknesses @ analyze_precedents a
              in analyze_loop nlp arguments weaknesses)))"

text \<open>\<^verbatim>\<open>analyze\<close>: \<^verbatim>\<open>except Exception\<close> turns every exception of the body into \<^verbatim>\<open>[]\<close>.\<close>

definition analyze :: "nlp \<Rightarrow> argument list \<Rightarrow> error + Weakness list" where
  "analyze nlp arguments =
     (case analyze_loop nlp arguments [] of
        Inr weaknesses \<Rightarrow> Inr (prioritize_weaknesses weaknesses)
      | Inl e \<Rightarrow> Inr [])"

text \<open>
  A stand-in for the sentence segmenter, for the examples: a text that is one sentence
  gives that sentence, the empty text gives none.
\<close>

definition one_sentence_nlp :: nlp where
  "one_sentence_nlp t = Inr (if t = [] then [] else [t])"

section \<open>The \<^verbatim>\<open>datetime\<close> library\<close>

text \<open>
  \<^verbatim>\<open>datetime.now().year\<close> and \<^verbatim>\<open>datetime.strptime(s, "%Y-%m-%d").year\<close> belong to
  the standard library.  They are parameters of the functions that call them:
  \<open>now_year\<close> is the current year, \<open>strptime_year\<close> gives the year of a date string,
  or \<^const>\<open>None\<close> where \<^verbatim>\<open>strptime\<close> raises ValueError (the only exception it
  raises on a string).
\<close>

record datetime =
  now_year :: int
  strptime_year :: "string \<Rightarrow> int option"

text \<open>
  A concrete \<^verbatim>\<open>strptime\<close> for the format \<^verbatim>\<open>%Y-%m-%d\<close> on ASCII input, after CPython's
  \<^verbatim>\<open>_strptime\<close>: the regular expression
  \<^verbatim>\<open>(\d\d\d\d)-(1[0-2]|0[1-9]|[1-9])-(3[01]|[12]\d|0[1-9]|[1-9]| [1-9])\<close>
  must match a prefix, nothing may remain after it, and the date must exist.
\<close>

definition is_digit :: "char \<Rightarrow> bool" where
  "is_digit c = (c \<in> set ''0123456789'')"

definition digit_value :: "char \<Rightarrow> int" where
  "digit_value c = dict_get (map_of (zip ''0123456789'' [0, 1, 2, 3, 4, 5, 6, 7, 8, 9]) c) 0"

fun match_Y :: "string \<Rightarrow> (int \<times> string) option" where
  "match_Y (a # b # c # d # rest) =
     (if is_digit a \<and> is_digit b \<and> is_digit c \<and> is_digit d
      then Some (1000 * digit_value a + 100 * digit_value b + 10 * digit_value c + digit_value d,
                 rest)
      else None)"
| "match_Y s = None"

fun match_dash :: "string \<Rightarrow> string option" where
  "match_dash (c # rest) = (if c = CHR ''-'' then Some rest else None)"
| "match_dash [] = None"

fun match_m :: "string \<Rightarrow> (int \<times> string) option" where
  "match_m (a # b # rest) =
     (if a = CHR ''1'' \<and> b \<in> set ''012'' then Some (10 + digit_value b, rest)
      else if a = CHR ''0'' \<and> b \<in> set ''123456789'' then Some (digit_value b, rest)
      else if a \<in> set ''123456789'' then Some (digit_value a, b # rest)
      else None)"
| "match_m [a] = (if a \<in> set ''123456789'' then Some (digit_value a, []) else None)"
| "match_m [] = None"

fun match_d :: "string \<Rightarrow> (int \<times> string) option" where
  "match_d (a # b # rest) =
     (if a = CHR ''3'' \<and> b \<in> set ''01'' then Some (30 + digit_value b, rest)
      else if a \<in> set ''12'' \<and> is_digit b then Some (10 * digit_value a + digit_value b, rest)
      else if a = CHR ''0'' \<and> b \<in> set ''123456789'' then Some (digit_value b, rest)
      else if a \<in> set ''123456789'' then Some (digit_value a, b # rest)
      else if a = CHR '' '' \<and> b \<in> set ''123456789'' then Some (digit_value b, rest)
      else None)"
| "match_d [a] = (if a \<in> set ''123456789'' then Some (digit_value a, []) else None)"
| "match_d [] = None"

definition days_in_month :: "int \<Rightarrow> int \<Rightarrow> int" where
  "days_in_month y m =
     (if m = 2 then (if y mod 4 = 0 \<and> (y mod 100 \<noteq> 0 \<or> y mod 400 = 0) then 29 else 28)
      else if m \<in> {4, 6, 9, 11} then 30 else 31)"

definition strptime_Ymd_year :: "string \<Rightarrow> int option" where
  "strptime_Ymd_year s =
     (case match_Y s of None \<Rightarrow> None | Some (y, s1) \<Rightarrow>
      case match_dash s1 of None \<Rightarrow> None | Some s2 \<Rightarrow>
      case match_m s2 of None \<Rightarrow> None | Some (m, s3) \<Rightarrow>
      case match_dash s3 of None \<Rightarrow> None | Some s4 \<Rightarrow>
      case match_d s4 of None \<Rightarrow> None | Some (d, s5) \<Rightarrow>
        if s5 \<noteq> [] then None
        else if y < 1 \<or> d > days_in_month y m then None
        else Some y)"

definition datetime_in :: "int \<Rightarrow> datetime" where
  "datetime_in y = \<lparr>now_year = y, strptime_year = strptime_Ymd_year\<rparr>"

section \<open>\<^verbatim>\<open>weighting/point_weighting.py\<close>\<close>

text \<open>The \<^verbatim>\<open>case\<close> dictionary, with the keys \<^verbatim>\<open>PointWeighting\<close> reads.\<close>

record case_dict =
  case_keywords :: "string list option"
  context_similarity :: "real option"
  citation_count :: "int option"
  court_type :: "string option"
  precedent_setting :: "bool option"
  overturned_previous :: "bool option"
  widely_cited :: "bool option"
  current_relevance :: "bool option"
  date :: "string option"

definition court_hierarchy_weights :: "string \<rightharpoonup> real" where
  "court_hierarchy_weights = map_of
     [(''Supreme Court'', 1.0), (''Circuit Court'', 0.8), (''District Court'', 0.6),
      (''State Supreme Court'', 0.7), (''State Appellate Court'', 0.5),
      (''State Trial Court'', 0.4)]"

definition time_decay_factor :: real where
  "time_decay_factor = 0.98"

definition citation_threshold :: real where
  "citation_threshold = 50"

definition calculate_relevance_weight :: "case_dict \<Rightarrow> real" where
  "calculate_relevance_weight c =
     (let relevance_score = 0;
          relevance_score =
            (case case_keywords c of
               Some ks \<Rightarrow> relevance_score + real (length ks) * 0.1
             | None \<Rightarrow> relevance_score);
          relevance_score =
            (case context_similarity c of
               Some cs \<Rightarrow> relevance_score + cs * 0.5
             | None \<Rightarrow> relevance_score)
      in min relevance_score 1.0)"

definition calculate_citation_weight :: "case_dict \<Rightarrow> real" where
  "calculate_citation_weight c =
     (let citations = dict_get (citation_count c) 0
      in min (real_of_int citations / citation_threshold) 1.0)"

definition calculate_hierarchy_weight :: "case_dict \<Rightarrow> real" where
  "calculate_hierarchy_weight c =
     (let court = dict_get (court_type c) ''District Court''
      in dict_get (court_hierarchy_weights court) 0.4)"

definition impact_factors :: "((case_dict \<Rightarrow> bool option) \<times> real) list" where
  "impact_factors =
     [(precedent_setting, 0.3), (overturned_previous, 0.2), (widely_cited, 0.2),
      (current_relevance, 0.3)]"

definition calculate_outcome_impact :: "case_dict \<Rightarrow> real" where
  "calculate_outcome_impact c =
     foldl (\<lambda>impact_score (factor, weight).
              if dict_get (factor c) False then impact_score + weight else impact_score)
       0 impact_factors"

definition calculate_temporal_weight :: "datetime \<Rightarrow> case_dict \<Rightarrow> error + real" where
  "calculate_temporal_weight dt c =
     (case date c of
        None \<Rightarrow> Inr 0.5
      | Some d \<Rightarrow>
          (case strptime_year dt d of
             None \<Rightarrow> Inl ValueError
           | Some case_year \<Rightarrow>
               (let current_year = now_year dt;
                    years_diff = current_year - case_year
                in Inr (time_decay_factor powi years_diff))))"

text \<open>
  The five raw scores in the order of the dictionary literal.  Only the last can raise.
\<close>

definition raw_weights :: "datetime \<Rightarrow> case_dict \<Rightarrow> error + (string \<times> real) list" where
  "raw_weights dt c =
     (case calculate_temporal_weight dt c of
        Inl e \<Rightarrow> Inl e
      | Inr temporal \<Rightarrow>
          Inr [(''relevance'', calculate_relevance_weight c),
               (''citation_frequency'', calculate_citation_weight c),
               (''court_hierarchy'', calculate_hierarchy_weight c),
               (''case_outcome_impact'', calculate_outcome_impact c),
               (''temporal_relevance'', temporal)])"

text \<open>A float division raises ZeroDivisionError when the divisor is zero.\<close>

definition weight_points :: "datetime \<Rightarrow> case_dict \<Rightarrow> error + (string \<times> real) list" where
  "weight_points dt c =
     (case raw_weights dt c of
        Inl e \<Rightarrow> Inl e
      | Inr weights \<Rightarrow>
          (let total_weight = sum_list (map snd weights)
           in if total_weight = 0 then Inl ZeroDivisionError
              else Inr (map (\<lambda>(k, v). (k, v / total_weight)) weights)))"

subsection \<open>The rounding of the float arithmetic\<close>

text \<open>
  The definitions above read a float as the real number it denotes and compute exactly.
  That is enough to tell which exception a call raises, not for a tolerance on the
  weights: there the rounding of every float operation counts.  The definitions below
  are the same functions with the rounding explicit.  A float is still the real number
  it denotes (infinities and NaN are no values of the model), and the arithmetic is a
  parameter:
  \<^item> \<open>rnd\<close> rounds a real to a float.  A decimal literal is the rounding of its
    value, a float operation \<^verbatim>\<open>+\<close>, \<^verbatim>\<open>*\<close>, \<^verbatim>\<open>/\<close> is the rounding of the exact
    result, an int enters float arithmetic through its rounding, and the true division
    of two ints is the rounding of the exact quotient.
  \<^item> \<open>fl_sum\<close> is the builtin \<^verbatim>\<open>sum\<close> on a list of floats (a left-to-right
    summation before CPython 3.12, a compensated one since).
  \<^item> \<open>fl_pow\<close> is \<^verbatim>\<open>**\<close> with a float base and an int exponent (the C library's
    \<^verbatim>\<open>pow\<close>).
  The literal \<^verbatim>\<open>0.0\<close> and the int \<^verbatim>\<open>0\<close> are the real 0.
\<close>

record float_arith =
  rnd :: "real \<Rightarrow> real"
  fl_sum :: "real list \<Rightarrow> real"
  fl_pow :: "real \<Rightarrow> int \<Rightarrow> real"

text \<open>
  What the proofs below use of binary64 arithmetic, away from overflow: a rounding
  changes a value by a relative error of at most the unit roundoff
  \<^verbatim>\<open>2^-53 < 10^-15\<close>, or in the subnormal range by an absolute error of at most
  \<^verbatim>\<open>2^-1075 < 10^-300\<close>; it keeps the sign; \<^verbatim>\<open>sum\<close> on five floats that are not
  negative is within four roundings of the exact sum; a power of a base that is not
  negative is not negative.
\<close>

definition standard_model :: "float_arith \<Rightarrow> bool" where
  "standard_model fa \<longleftrightarrow>
     (\<forall>x. \<bar>rnd fa x - x\<bar> \<le> \<bar>x\<bar> / 10 ^ 15 + 1 / 10 ^ 300) \<and>
     (\<forall>x. 0 \<le> x \<longrightarrow> 0 \<le> rnd fa x) \<and>
     (\<forall>xs. length xs = 5 \<and> (\<forall>x \<in> set xs. 0 \<le> x) \<longrightarrow>
        \<bar>fl_sum fa xs - sum_list xs\<bar> \<le> sum_list xs / 10 ^ 14 + 1 / 10 ^ 299) \<and>
     (\<forall>b k. 0 \<le> b \<longrightarrow> 0 \<le> fl_pow fa b k)"

definition calculate_relevance_weight_fl :: "float_arith \<Rightarrow> case_dict \<Rightarrow> real" where
  "calculate_relevance_weight_fl fa c =
     (let relevance_score = 0;
          relevance_score =
            (case case_keywords c of
               Some ks \<Rightarrow>
                 rnd fa (relevance_score + rnd fa (rnd fa (real (length ks)) * rnd fa 0.1))
             | None \<Rightarrow> relevance_score);
          relevance_score =
            (case context_similarity c of
               Some cs \<Rightarrow> rnd fa (relevance_score + rnd fa (cs * rnd fa 0.5))
             | None \<Rightarrow> relevance_score)
      in min relevance_score (rnd fa 1.0))"

text \<open>
  The true division of two ints, and \<^verbatim>\<open>**\<close>, raise OverflowError when the rounded
  result is not finite, that is from \<^verbatim>\<open>2^1024 - 2^970\<close> on.  The other float
  operations do not raise there (they give an infinity, which the model does not have).
\<close>

definition float_overflow :: "real \<Rightarrow> bool" where
  "float_overflow x \<longleftrightarrow> 2 ^ 1024 - 2 ^ 970 \<le> \<bar>x\<bar>"

definition calculate_citation_weight_fl :: "float_arith \<Rightarrow> case_dict \<Rightarrow> error + real" where
  "calculate_citation_weight_fl fa c =
     (let citations = dict_get (citation_count c) 0
      in if float_overflow (real_of_int citations / citation_threshold) then Inl OverflowError
         else Inr (min (rnd fa (real_of_int citations / citation_threshold)) (rnd fa 1.0)))"

definition calculate_hierarchy_weight_fl :: "float_arith \<Rightarrow> case_dict \<Rightarrow> real" where
  "calculate_hierarchy_weight_fl fa c =
     (let court = dict_get (court_type c) ''District Court''
      in rnd fa (dict_get (court_hierarchy_weights court) 0.4))"

definition calculate_outcome_impact_fl :: "float_arith \<Rightarrow> case_dict \<Rightarrow> real" where
  "calculate_outcome_impact_fl fa c =
     foldl (\<lambda>impact_score (factor, weight).
              if dict_get (factor c) False then rnd fa (impact_score + rnd fa weight)
              else impact_score)
       0 impact_factors"

definition calculate_temporal_weight_fl ::
  "float_arith \<Rightarrow> datetime \<Rightarrow> case_dict \<Rightarrow> error + real" where
  "calculate_temporal_weight_fl fa dt c =
     (case date c of
        None \<Rightarrow> Inr (rnd fa 0.5)
      | Some d \<Rightarrow>
          (case strptime_year dt d of
             None \<Rightarrow> Inl ValueError
           | Some case_year \<Rightarrow>
               (let current_year = now_year dt;
                    years_diff = current_year - case_year
                in if float_overflow (rnd fa time_decay_factor powi years_diff)
                   then Inl OverflowError
                   else Inr (fl_pow fa (rnd fa time_decay_factor) years_diff))))"

text \<open>The raw scores in the order of the dictionary literal: the second can raise, then the last.\<close>

definition raw_weights_fl ::
  "float_arith \<Rightarrow> datetime \<Rightarrow> case_dict \<Rightarrow> error + (string \<times> real) list" where
  "raw_weights_fl fa dt c =
     (case calculate_citation_weight_fl fa c of
        Inl e \<Rightarrow> Inl e
      | Inr citation \<Rightarrow>
          (case calculate_temporal_weight_fl fa dt c of
             Inl e \<Rightarrow> Inl e
           | Inr temporal \<Rightarrow>
               Inr [(''relevance'', calculate_relevance_weight_fl fa c),
                    (''citation_frequency'', citation),
                    (''court_hierarchy'', calculate_hierarchy_weight_fl fa c),
                    (''case_outcome_impact'', calculate_outcome_impact_fl fa c),
                    (''temporal_relevance'', temporal)]))"

definition weight_points_fl ::
  "float_arith \<Rightarrow> datetime \<Rightarrow> case_dict \<Rightarrow> error + (string \<times> real) list" where
  "weight_points_fl fa dt c =
     (case raw_weights_fl fa dt c of
        Inl e \<Rightarrow> Inl e
      | Inr weights \<Rightarrow>
          (let total_weight = fl_sum fa (map snd weights)
           in if total_weight = 0 then Inl ZeroDivisionError
              else Inr (map (\<lambda>(k, v). (k, rnd fa (v / total_weight))) weights)))"

text \<open>The arithmetic without rounding, which gives back the definitions on the reals.\<close>

definition exact_arith :: float_arith where
  "exact_arith = \<lparr>rnd = (\<lambda>x. x), fl_sum = sum_list, fl_pow = (\<lambda>b k. b powi k)\<rparr>"

text \<open>
  A concrete arithmetic: binary64 with rounding to nearest, ties to even, and gradual
  underflow.  It has no overflow (the exponent is not bounded above), so it is
  IEEE 754 arithmetic wherever the rounded value is finite.  \<open>fl_sum\<close> is the
  left-to-right summation from the int 0, \<open>fl_pow\<close> the correctly rounded power.
\<close>

definition round_half_even :: "real \<Rightarrow> int" where
  "round_half_even y =
     (let f = \<lfloor>y\<rfloor>; d = y - of_int f
      in if d < 1 / 2 then f else if 1 / 2 < d then f + 1 else if even f then f else f + 1)"

definition round_double :: "real \<Rightarrow> real" where
  "round_double x =
     (if x = 0 then 0
      else (let e = max (\<lfloor>log 2 \<bar>x\<bar>\<rfloor> - 52) (- 1074)
            in of_int (round_half_even (x / 2 powi e)) * 2 powi e))"

definition double_arith :: float_arith where
  "double_arith =
     \<lparr>rnd = round_double,
      fl_sum = foldl (\<lambda>s x. round_double (s + x)) 0,
      fl_pow = (\<lambda>b k. round_double (b powi k))\<rparr>"

section \<open>\<^verbatim>\<open>analysis/case_analysis.py\<close>\<close>

record metadata =
  md_date :: "string option"
  md_court :: "string option"

record case_data =
  case_metadata :: "metadata option"
  citations :: "string list option"

definition precedent_weight :: "string \<rightharpoonup> real" where
  "precedent_weight = map_of
     [(''Supreme Court'', 1.0), (''Circuit Court'', 0.8), (''District Court'', 0.6)]"

definition extract_year :: "datetime \<Rightarrow> string \<Rightarrow> int" where
  "extract_year dt date_str =
     (case strptime_year dt date_str of Some y \<Rightarrow> y | None \<Rightarrow> now_year dt)"

definition calculate_time_weight :: "datetime \<Rightarrow> int \<Rightarrow> real" where
  "calculate_time_weight dt year =
     (let current_year = now_year dt;
          years_diff = current_year - year
      in max 0.1 (1 - real_of_int years_diff * 0.05))"

text \<open>\<^verbatim>\<open>case_data["metadata"]\<close> raises KeyError when the key is absent.\<close>

definition calculate_relevance :: "datetime \<Rightarrow> case_data \<Rightarrow> error + real" where
  "calculate_relevance dt cd =
     (case case_metadata cd of
        None \<Rightarrow> Inl KeyError
      | Some md \<Rightarrow>
          (let relevance_score = 0;
               relevance_score =
                 (case md_date md of
                    Some d \<Rightarrow> relevance_score + calculate_time_weight dt (extract_year dt d)
                  | None \<Rightarrow> relevance_score);
               relevance_score =
                 (case md_court md of
                    Some court \<Rightarrow> relevance_score + dict_get (precedent_weight court) 0.4
                  | None \<Rightarrow> relevance_score);
               citation_score = real (length (dict_get (citations cd) [])) * 0.1;
               relevance_score = relevance_score + min citation_score 1.0
           in Inr (min (relevance_score / 3) 1.0)))"

section \<open>\<^verbatim>\<open>dual_perspective.py\<close>\<close>

datatype ArgumentType = FACTUAL | LEGAL | PROCEDURAL | POLICY

record Argument =
  a_text :: string
  a_type :: ArgumentType
  strength :: real
  supporting_citations :: "string list"
  counter_arguments :: "string list"

text \<open>
  \<^verbatim>\<open>Argument\<close> objects are mutable and the tracks hold references to them, so the
  objects live in a store and a track is a list of references.  Each object owns its
  \<^verbatim>\<open>counter_arguments\<close> list.
\<close>

type_synonym ref = nat

record DualPerspectiveAnalysis =
  prosecution_track :: "ref list"
  defense_track :: "ref list"
  shared_facts :: "string list"
  disputed_facts :: "(string \<times> (string \<times> string) list) list"
  store :: "ref \<Rightarrow> Argument"

text \<open>
  \<^verbatim>\<open>self.nlp(t1).similarity(self.nlp(t2))\<close> is external (spaCy): a parameter giving the
  similarity of two texts, or \<^const>\<open>None\<close> where the pipeline raises.
\<close>

type_synonym similarity = "string \<Rightarrow> string \<Rightarrow> real option"

definition opposing_pairs :: "(string \<times> string) list" where
  "opposing_pairs =
     [(''supports'', ''opposes''), (''proves'', ''disproves''), (''confirms'', ''contradicts'')]"

text \<open>The loop over \<^verbatim>\<open>opposing_pairs\<close>, returning at the first pair that matches.\<close>

fun pairs_loop :: "string \<Rightarrow> string \<Rightarrow> (string \<times> string) list \<Rightarrow> bool" where
  "pairs_loop t1 t2 [] = False"
| "pairs_loop t1 t2 ((pos, neg) # pairs) =
     (if (substring_in pos (lower t1) \<and> substring_in neg (lower t2)) \<or>
         (substring_in neg (lower t1) \<and> substring_in pos (lower t2))
      then True
      else pairs_loop t1 t2 pairs)"

text \<open>\<^verbatim>\<open>except Exception\<close> turns a failure of the similarity into \<^verbatim>\<open>False\<close>.\<close>

definition arguments_conflict :: "similarity \<Rightarrow> Argument \<Rightarrow> Argument \<Rightarrow> bool" where
  "arguments_conflict sim arg1 arg2 =
     (if a_type arg1 \<noteq> a_type arg2 then False
      else
        (case sim (a_text arg1) (a_text arg2) of
           None \<Rightarrow> False
         | Some similarity \<Rightarrow>
             if similarity > 0.7 then pairs_loop (a_text arg1) (a_text arg2) opposing_pairs
             else False))"

text \<open>
  The loop of \<^verbatim>\<open>_analyze_argument_conflicts\<close>: \<open>argument\<close> is the reference of the
  argument being registered, and each round reads the current store.
\<close>

fun conflicts_loop ::
  "similarity \<Rightarrow> ref \<Rightarrow> ref list \<Rightarrow> (ref \<Rightarrow> Argument) \<Rightarrow> (ref \<Rightarrow> Argument)" where
  "conflicts_loop sim argument [] h = h"
| "conflicts_loop sim argument (opposing_arg # opposing_track) h =
     conflicts_loop sim argument opposing_track
       (if arguments_conflict sim (h argument) (h opposing_arg)
        then h(argument := (h argument)
               \<lparr>counter_arguments := counter_arguments (h argument) @ [a_text (h opposing_arg)]\<rparr>)
        else h)"

definition analyze_argument_conflicts ::
  "similarity \<Rightarrow> ref \<Rightarrow> string \<Rightarrow> DualPerspectiveAnalysis \<Rightarrow> DualPerspectiveAnalysis" where
  "analyze_argument_conflicts sim argument side s =
     (let opposing_track =
            (if side = ''prosecution'' then defense_track s else prosecution_track s)
      in s\<lparr>store := conflicts_loop sim argument opposing_track (store s)\<rparr>)"

definition add_prosecution_argument ::
  "similarity \<Rightarrow> ref \<Rightarrow> DualPerspectiveAnalysis \<Rightarrow> DualPerspectiveAnalysis" where
  "add_prosecution_argument sim argument s =
     analyze_argument_conflicts sim argument ''prosecution''
       (s\<lparr>prosecution_track := prosecution_track s @ [argument]\<rparr>)"

definition add_defense_argument ::
  "similarity \<Rightarrow> ref \<Rightarrow> DualPerspectiveAnalysis \<Rightarrow> DualPerspectiveAnalysis" where
  "add_defense_argument sim argument s =
     analyze_argument_conflicts sim argument ''defense''
       (s\<lparr>defense_track := defense_track s @ [argument]\<rparr>)"

text \<open>A sequence of additions: \<^const>\<open>True\<close> registers on the prosecution track.\<close>

fun add_all ::
  "similarity \<Rightarrow> (bool \<times> ref) list \<Rightarrow> DualPerspectiveAnalysis \<Rightarrow> DualPerspectiveAnalysis" where
  "add_all sim [] s = s"
| "add_all sim ((prosecution, argument) # additions) s =
     add_all sim additions
       (if prosecution then add_prosecution_argument sim argument s
        else add_defense_argument sim argument s)"

section \<open>Properties of the helpers\<close>

lemma sorted_reverse_descending:
  "sorted_wrt (\<lambda>a b. key b \<le> key a) (sorted_reverse key xs)"
proof -
  have "sorted (map key (sort_key key (rev xs)))"
    by simp
  then have "sorted_wrt (\<lambda>a b. key a \<le> key b) (sort_key key (rev xs))"
    by (simp only: sorted_map)
  then show ?thesis
    by (simp add: sorted_reverse_def sorted_wrt_rev)
qed

lemma set_sorted_reverse: "set (sorted_reverse key xs) = set xs"
  by (simp add: sorted_reverse_def)

section \<open>Strategy suggestion\<close>

lemma primary_priority: "priority (generate_primary_strategy c o') = 1"
  by (simp add: generate_primary_strategy_def from_template_def strategy_templates_def)

lemma suggest_cases:
  "suggest a =
     (if dict_get (precedent_score a) 0 > 0.7
      then generate_supplementary_strategies a @
           [generate_primary_strategy (evaluate_case_strength a) (evaluate_opposition_strength a)]
      else [generate_primary_strategy (evaluate_case_strength a) (evaluate_opposition_strength a)])"
  by (simp add: suggest_def sorted_reverse_def generate_supplementary_strategies_def
      primary_priority Let_def)

text \<open>
  C3, as stated, fails: with \<^verbatim>\<open>precedent_score = 0.8\<close> and every other score absent the
  list is the PRECEDENT_FOCUSED strategy (priority 2) followed by the primary strategy
  (BALANCED, priority 1), so the primary strategy is not the first element.
\<close>

theorem C3_primary_first_counterexample:
  "map (\<lambda>s. (s_type s, priority s))
     (suggest \<lparr>evidence_score = None, precedent_score = Some 0.8, coherence_score = None,
               counter_argument_strength = None, opposing_evidence_strength = None\<rparr>)
   = [(PRECEDENT_FOCUSED, 2), (BALANCED, 1)]"
  by (simp add: suggest_cases generate_supplementary_strategies_def dict_get_def
      generate_primary_strategy_def evaluate_case_strength_def evaluate_opposition_strength_def
      from_template_def strategy_templates_def)

text \<open>
  C3, amended: for every analysis input the list returned by \<^verbatim>\<open>suggest\<close> is ordered by
  priority descending; the primary strategy is its only element of priority 1 and is
  always its last element; it is the first element exactly when no supplementary
  strategy is generated, that is when \<^verbatim>\<open>precedent_score\<close> is absent or at most 0.7.
\<close>

theorem C3_suggest_order:
  "sorted_wrt (\<lambda>s t. priority t \<le> priority s) (suggest a) \<and>
   last (suggest a) =
     generate_primary_strategy (evaluate_case_strength a) (evaluate_opposition_strength a) \<and>
   filter (\<lambda>s. priority s = 1) (suggest a) =
     [generate_primary_strategy (evaluate_case_strength a) (evaluate_opposition_strength a)] \<and>
   (hd (suggest a) =
      generate_primary_strategy (evaluate_case_strength a) (evaluate_opposition_strength a)
    \<longleftrightarrow> \<not> dict_get (precedent_score a) 0 > 0.7)"
proof -
  let ?p = "generate_primary_strategy (evaluate_case_strength a) (evaluate_opposition_strength a)"
  have 1: "sorted_wrt (\<lambda>s t. priority t \<le> priority s) (suggest a)"
    by (simp add: suggest_def Let_def sorted_reverse_descending)
  have 2: "last (suggest a) = ?p"
    by (simp add: suggest_cases)
  have 3: "filter (\<lambda>s. priority s = 1) (suggest a) = [?p]"
    by (simp add: suggest_cases primary_priority generate_supplementary_strategies_def)
  have 4: "hd (suggest a) = ?p \<longleftrightarrow> \<not> dict_get (precedent_score a) 0 > 0.7"
  proof (cases "dict_get (precedent_score a) 0 > 0.7")
    case True
    then have "priority (hd (suggest a)) = 2"
      by (simp add: suggest_cases generate_supplementary_strategies_def)
    then have "hd (suggest a) \<noteq> ?p"
      using primary_priority [of "evaluate_case_strength a" "evaluate_opposition_strength a"]
      by auto
    with True show ?thesis by simp
  next
    case False
    then show ?thesis by (simp add: suggest_cases)
  qed
  from 1 2 3 4 show ?thesis by blast
qed

theorem C3_suggest_order_witness:
  "last (suggest \<lparr>evidence_score = Some 0.9, precedent_score = Some 0.8,
                  coherence_score = Some 0.9, counter_argument_strength = Some 0.2,
                  opposing_evidence_strength = Some 0.2\<rparr>)
     = from_template AGGRESSIVE (13 / 15) \<and>
   hd (suggest \<lparr>evidence_score = Some 0.9, precedent_score = Some 0.8,
                coherence_score = Some 0.9, counter_argument_strength = Some 0.2,
                opposing_evidence_strength = Some 0.2\<rparr>)
     \<noteq> from_template AGGRESSIVE (13 / 15)"
  using C3_suggest_order [of "\<lparr>evidence_score = Some 0.9, precedent_score = Some 0.8,
                  coherence_score = Some 0.9, counter_argument_strength = Some 0.2,
                  opposing_evidence_strength = Some 0.2\<rparr>"]
  by (simp add: dict_get_def generate_primary_strategy_def evaluate_case_strength_def
      evaluate_opposition_strength_def)

section \<open>Weakness analysis\<close>

lemma logic_sents_loop_raises: "logic_sents_loop (sent # sents) ws = Inl ValueError"
  by (simp add: weakness_patterns_def)

lemma analyze_logic_cases:
  "analyze_logic nlp a =
     (case nlp (dict_get (arg_text a) []) of
        Inl e \<Rightarrow> Inl e
      | Inr [] \<Rightarrow> Inr []
      | Inr (sent # sents) \<Rightarrow> Inl ValueError)"
  by (simp add: analyze_logic_def logic_sents_loop_raises del: logic_sents_loop.simps(2)
      split: sum.splits list.splits)

lemma analyze_logic_Inr: "analyze_logic nlp a = Inr ws \<Longrightarrow> ws = []"
  by (auto simp: analyze_logic_cases split: sum.splits list.splits)

lemma analyze_loop_skip:
  "validate_argument a \<noteq> None \<Longrightarrow>
   analyze_loop nlp (xs @ a # ys) ws = analyze_loop nlp (xs @ ys) ws"
proof (induction xs arbitrary: ws)
  case Nil
  then show ?case by simp
next
  case (Cons x xs)
  then show ?case by (simp add: Let_def split: sum.splits)
qed

lemma analyze_loop_keeps:
  "analyze_loop nlp args ws = Inr ws' \<Longrightarrow> set ws \<subseteq> set ws'"
proof (induction args arbitrary: ws)
  case Nil
  then show ?case by simp
next
  case (Cons x xs)
  show ?case
  proof (cases "validate_argument x \<noteq> None")
    case True
    with Cons show ?thesis by simp
  next
    case False
    with Cons.prems obtain lw where
      lw: "analyze_logic nlp x = Inr lw" and
      rest: "analyze_loop nlp xs (ws @ analyze_evidence x @ lw @ analyze_precedents x) = Inr ws'"
      by (auto simp: Let_def split: sum.splits)
    from Cons.IH [OF rest] show ?thesis by auto
  qed
qed

lemma analyze_loop_evidence:
  "analyze_loop nlp args ws = Inr ws' \<Longrightarrow> a \<in> set args \<Longrightarrow> validate_argument a = None \<Longrightarrow>
   set (analyze_evidence a) \<subseteq> set ws'"
proof (induction args arbitrary: ws)
  case Nil
  then show ?case by simp
next
  case (Cons x xs)
  show ?case
  proof (cases "validate_argument x \<noteq> None")
    case True
    with Cons.prems have "a \<in> set xs" by auto
    with Cons True show ?thesis by simp
  next
    case False
    with Cons.prems obtain lw where
      lw: "analyze_logic nlp x = Inr lw" and
      rest: "analyze_loop nlp xs (ws @ analyze_evidence x @ lw @ analyze_precedents x) = Inr ws'"
      by (auto simp: Let_def split: sum.splits)
    show ?thesis
    proof (cases "a = x")
      case True
      with analyze_loop_keeps [OF rest] show ?thesis by auto
    next
      case False
      with Cons.prems have "a \<in> set xs" by auto
      from Cons.IH [OF rest this Cons.prems(3)] show ?thesis .
    qed
  qed
qed

lemma evidence_gap_emitted:
  "evidence a = None \<or> evidence a = Some [] \<Longrightarrow> evidence_gap_weakness \<in> set (analyze_evidence a)"
  by (auto simp: analyze_evidence_def Let_def)

text \<open>
  C2, as stated, fails: an argument whose \<^verbatim>\<open>evidence\<close> key is missing does not pass
  \<^verbatim>\<open>validate_argument\<close>, so \<^verbatim>\<open>analyze\<close> skips it and returns no Weakness for it.
\<close>

theorem C2_missing_evidence_counterexample:
  "analyze one_sentence_nlp
     [\<lparr>arg_text = Some ''The contract was signed.'', arg_type = Some ''factual'',
       evidence = None, evidence_quality = None, precedents = None\<rparr>] = Inr []"
  by (simp add: analyze_def validate_argument_def prioritize_weaknesses_def sorted_reverse_def)

text \<open>
  C2, amended: \<^verbatim>\<open>_analyze_evidence\<close> yields the Weakness of type \<^verbatim>\<open>evidence_gap\<close>
  with severity 0.8 for every argument whose evidence is missing or empty.
  \<^verbatim>\<open>analyze\<close> skips an argument whose \<^verbatim>\<open>evidence\<close> key is missing: the result is the
  same as without that argument.  For an argument that has its three required keys and
  an empty evidence list, the list returned by \<^verbatim>\<open>analyze\<close> contains that Weakness
  whenever the loop over the arguments ends without an exception.
\<close>

theorem C2_evidence_gap:
  "w_type evidence_gap_weakness = ''evidence_gap'' \<and> severity evidence_gap_weakness = 0.8 \<and>
   (evidence a = None \<or> evidence a = Some [] \<longrightarrow>
      evidence_gap_weakness \<in> set (analyze_evidence a)) \<and>
   (evidence a = None \<longrightarrow> analyze nlp (xs @ a # ys) = analyze nlp (xs @ ys)) \<and>
   (a \<in> set args \<and> validate_argument a = None \<and> evidence a = Some [] \<and>
    analyze_loop nlp args [] = Inr ws \<longrightarrow>
      (\<exists>result. analyze nlp args = Inr result \<and> evidence_gap_weakness \<in> set result))"
proof -
  have 1: "w_type evidence_gap_weakness = ''evidence_gap'' \<and> severity evidence_gap_weakness = 0.8"
    by (simp add: evidence_gap_weakness_def)
  have 2: "evidence a = None \<or> evidence a = Some [] \<longrightarrow>
      evidence_gap_weakness \<in> set (analyze_evidence a)"
    using evidence_gap_emitted by blast
  have 3: "evidence a = None \<longrightarrow> analyze nlp (xs @ a # ys) = analyze nlp (xs @ ys)"
  proof
    assume "evidence a = None"
    then have "validate_argument a \<noteq> None"
      by (simp add: validate_argument_def)
    then show "analyze nlp (xs @ a # ys) = analyze nlp (xs @ ys)"
      by (simp add: analyze_def analyze_loop_skip)
  qed
  have 4: "a \<in> set args \<and> validate_argument a = None \<and> evidence a = Some [] \<and>
    analyze_loop nlp args [] = Inr ws \<longrightarrow>
      (\<exists>result. analyze nlp args = Inr result \<and> evidence_gap_weakness \<in> set result)"
  proof
    assume h: "a \<in> set args \<and> validate_argument a = None \<and> evidence a = Some [] \<and>
      analyze_loop nlp args [] = Inr ws"
    then have "set (analyze_evidence a) \<subseteq> set ws"
      using analyze_loop_evidence by blast
    moreover from h have "evidence_gap_weakness \<in> set (analyze_evidence a)"
      using evidence_gap_emitted by blast
    ultimately have "evidence_gap_weakness \<in> set (prioritize_weaknesses ws)"
      by (auto simp: prioritize_weaknesses_def set_sorted_reverse)
    with h show "\<exists>result. analyze nlp args = Inr result \<and> evidence_gap_weakness \<in> set result"
      by (simp add: analyze_def)
  qed
  from 1 2 3 4 show ?thesis by blast
qed

theorem C2_evidence_gap_witness:
  "analyze one_sentence_nlp
     ([] @ \<lparr>arg_text = Some ''The contract was signed.'', arg_type = Some ''factual'',
            evidence = None, evidence_quality = None, precedents = None\<rparr> # [])
     = analyze one_sentence_nlp ([] @ []) \<and>
   evidence_gap_weakness \<in> set (analyze_evidence
      \<lparr>arg_text = Some ''The contract was signed.'', arg_type = Some ''factual'',
       evidence = None, evidence_quality = None, precedents = None\<rparr>) \<and>
   analyze_loop one_sentence_nlp
     [\<lparr>arg_text = Some [], arg_type = Some ''factual'', evidence = Some [],
       evidence_quality = None, precedents = None\<rparr>] [] = Inr [evidence_gap_weakness] \<and>
   (\<exists>result.
      analyze one_sentence_nlp
        [\<lparr>arg_text = Some [], arg_type = Some ''factual'', evidence = Some [],
          evidence_quality = None, precedents = None\<rparr>] = Inr result \<and>
      evidence_gap_weakness \<in> set result)"
proof -
  let ?missing = "\<lparr>arg_text = Some ''The contract was signed.'', arg_type = Some ''factual'',
            evidence = None, evidence_quality = None, precedents = None\<rparr>"
  let ?empty = "\<lparr>arg_text = Some [], arg_type = Some ''factual'', evidence = Some [],
       evidence_quality = None, precedents = None\<rparr>"
  have loop: "analyze_loop one_sentence_nlp [?empty] [] = Inr [evidence_gap_weakness]"
    by (simp add: validate_argument_def analyze_logic_cases one_sentence_nlp_def dict_get_def
        analyze_evidence_def analyze_precedents_def)
  have valid: "validate_argument ?empty = None"
    by (simp add: validate_argument_def)
  from C2_evidence_gap [of ?missing one_sentence_nlp "[]" "[]"]
  have a: "analyze one_sentence_nlp ([] @ ?missing # []) = analyze one_sentence_nlp ([] @ [])"
    and b: "evidence_gap_weakness \<in> set (analyze_evidence ?missing)"
    by simp_all
  from C2_evidence_gap [of ?empty one_sentence_nlp _ _ "[?empty]" "[evidence_gap_weakness]"]
    loop valid
  have c: "\<exists>result. analyze one_sentence_nlp [?empty] = Inr result \<and>
      evidence_gap_weakness \<in> set result"
    by simp
  from a b c loop show ?thesis by blast
qed

text \<open>
  C10: \<^verbatim>\<open>analyze\<close> never raises: for every argument list it returns a list, and when
  an exception occurs in the loop over the arguments the returned list is empty, whatever
  had been collected for earlier arguments.
\<close>

theorem C10_analyze_never_raises:
  "(\<exists>ws. analyze nlp arguments = Inr ws) \<and>
   (analyze_loop nlp arguments [] = Inl e \<longrightarrow> analyze nlp arguments = Inr [])"
  by (simp add: analyze_def split: sum.splits)


theorem C10_analyze_never_raises_witness:
  "analyze_loop one_sentence_nlp
     [\<lparr>arg_text = Some [], arg_type = Some ''factual'', evidence = Some [],
       evidence_quality = None, precedents = None\<rparr>,
      \<lparr>arg_text = Some ''The evidence clearly shows...'', arg_type = Some ''factual'',
       evidence = Some [''Document A'', ''Witness B''], evidence_quality = Some 0.8,
       precedents = None\<rparr>] [] = Inl ValueError \<and>
   analyze one_sentence_nlp
     [\<lparr>arg_text = Some [], arg_type = Some ''factual'', evidence = Some [],
       evidence_quality = None, precedents = None\<rparr>,
      \<lparr>arg_text = Some ''The evidence clearly shows...'', arg_type = Some ''factual'',
       evidence = Some [''Document A'', ''Witness B''], evidence_quality = Some 0.8,
       precedents = None\<rparr>] = Inr [] \<and>
   analyze one_sentence_nlp
     [\<lparr>arg_text = Some [], arg_type = Some ''factual'', evidence = Some [],
       evidence_quality = None, precedents = None\<rparr>] = Inr [evidence_gap_weakness]"
proof -
  let ?first = "\<lparr>arg_text = Some [], arg_type = Some ''factual'', evidence = Some [],
       evidence_quality = None, precedents = None\<rparr>"
  let ?second = "\<lparr>arg_text = Some ''The evidence clearly shows...'', arg_type = Some ''factual'',
       evidence = Some [''Document A'', ''Witness B''], evidence_quality = Some 0.8,
       precedents = None\<rparr>"
  have raised: "analyze_loop one_sentence_nlp [?first, ?second] [] = Inl ValueError"
    by (simp add: validate_argument_def analyze_logic_cases one_sentence_nlp_def dict_get_def)
  have alone: "analyze one_sentence_nlp [?first] = Inr [evidence_gap_weakness]"
    by (simp add: analyze_def validate_argument_def analyze_logic_cases one_sentence_nlp_def
        dict_get_def analyze_evidence_def analyze_precedents_def prioritize_weaknesses_def
        sorted_reverse_def)
  from C10_analyze_never_raises [of one_sentence_nlp "[?first, ?second]" ValueError] raised
  have "analyze one_sentence_nlp [?first, ?second] = Inr []"
    by blast
  with raised alone show ?thesis by blast
qed

text \<open>
  C1 does not hold of the code.  The argument below is valid and its text is one
  sentence that contains the marker \<^verbatim>\<open>circular reasoning\<close>; C1 asks for one Weakness of
  type \<^verbatim>\<open>logical_flaw\<close> with severity 0.6.  The loop header of \<^verbatim>\<open>_analyze_logic\<close> unpacks
  the eighteen characters of the first marker phrase into two targets, which raises
  ValueError, and \<^verbatim>\<open>analyze\<close> returns the empty list.
\<close>

theorem C1_logical_flaw_lost:
  "analyze_logic one_sentence_nlp
     \<lparr>arg_text = Some ''This is circular reasoning.'', arg_type = Some ''legal'',
      evidence = Some [''Exhibit A''], evidence_quality = None, precedents = None\<rparr>
     = Inl ValueError \<and>
   analyze one_sentence_nlp
     [\<lparr>arg_text = Some ''This is circular reasoning.'', arg_type = Some ''legal'',
       evidence = Some [''Exhibit A''], evidence_quality = None, precedents = None\<rparr>]
     = Inr []"
  by (simp add: analyze_def validate_argument_def analyze_logic_cases one_sentence_nlp_def
      dict_get_def)

section \<open>Point weighting\<close>














section \<open>Case relevance\<close>

lemma time_weight_lower: "0.1 \<le> calculate_time_weight dt year"
  by (simp add: calculate_time_weight_def Let_def)

lemma precedent_weight_lower: "0.4 \<le> dict_get (precedent_weight court) 0.4"
  by (simp add: precedent_weight_def dict_get_def)

text \<open>
  C8 (floats read as reals): for every case record, that is a \<^verbatim>\<open>case_data\<close> with its
  \<^verbatim>\<open>metadata\<close>, \<^verbatim>\<open>_calculate_relevance\<close> returns the minimum of
  \<^verbatim>\<open>(time_weight + court_weight + citation_weight) / 3\<close> and 1.0, where the time weight
  and the court weight are 0 when their field is absent, and the result lies in [0,1].
\<close>

theorem C8_calculate_relevance:
  "case_metadata cd = Some md \<Longrightarrow>
   calculate_relevance dt cd =
     Inr (min (((case md_date md of
                   None \<Rightarrow> 0
                 | Some d \<Rightarrow> calculate_time_weight dt (extract_year dt d)) +
                (case md_court md of
                   None \<Rightarrow> 0
                 | Some court \<Rightarrow> dict_get (precedent_weight court) 0.4) +
                min (real (length (dict_get (citations cd) [])) * 0.1) 1.0) / 3) 1.0) \<and>
   (\<exists>r. calculate_relevance dt cd = Inr r \<and> 0 \<le> r \<and> r \<le> 1)"
proof -
  assume md: "case_metadata cd = Some md"
  define tw where "tw = (case md_date md of
                   None \<Rightarrow> 0
                 | Some d \<Rightarrow> calculate_time_weight dt (extract_year dt d))"
  define cw where "cw = (case md_court md of
                   None \<Rightarrow> 0
                 | Some court \<Rightarrow> dict_get (precedent_weight court) 0.4)"
  define ciw where "ciw = min (real (length (dict_get (citations cd) [])) * 0.1) 1.0"
  have eq: "calculate_relevance dt cd = Inr (min ((tw + cw + ciw) / 3) 1.0)"
    by (simp add: calculate_relevance_def md Let_def tw_def cw_def ciw_def
        split: option.splits)
  have tw_pos: "0 \<le> calculate_time_weight dt year" for year
    using time_weight_lower [of dt year] by linarith
  have cw_pos: "0 \<le> dict_get (precedent_weight court) 0.4" for court
    using precedent_weight_lower [of court] by linarith
  have "0 \<le> tw"
    by (simp add: tw_def tw_pos split: option.splits)
  moreover have "0 \<le> cw"
    using cw_pos by (simp add: cw_def split: option.splits)
  moreover have "0 \<le> ciw"
    by (simp add: ciw_def)
  ultimately have "0 \<le> min ((tw + cw + ciw) / 3) 1.0"
    by simp
  moreover have "min ((tw + cw + ciw) / 3) 1.0 \<le> 1"
    by simp
  ultimately show ?thesis
    using eq unfolding tw_def cw_def ciw_def by blast
qed

theorem C8_calculate_relevance_witness:
  "calculate_relevance (datetime_in 2026)
     \<lparr>case_metadata = Some \<lparr>md_date = Some ''2023-01-01'', md_court = Some ''Supreme Court''\<rparr>,
      citations = Some [''410 U.S. 113'', ''347 U.S. 483'']\<rparr> = Inr (41 / 60)"
proof -
  have y: "extract_year (datetime_in 2026) ''2023-01-01'' = 2023"
    by (simp add: extract_year_def datetime_in_def strptime_Ymd_year_def is_digit_def
        digit_value_def dict_get_def days_in_month_def)
  have n: "now_year (datetime_in 2026) = 2026"
    by (simp add: datetime_in_def)
  from C8_calculate_relevance [of
      "\<lparr>case_metadata = Some \<lparr>md_date = Some ''2023-01-01'', md_court = Some ''Supreme Court''\<rparr>,
      citations = Some [''410 U.S. 113'', ''347 U.S. 483'']\<rparr>"
      "\<lparr>md_date = Some ''2023-01-01'', md_court = Some ''Supreme Court''\<rparr>"
      "datetime_in 2026"]
  show ?thesis
    by (simp add: y n calculate_time_weight_def precedent_weight_def dict_get_def)
qed

section \<open>Conflict detection\<close>

text \<open>\<^const>\<open>substring_in\<close> is the substring test.\<close>

lemma starts_with_iff: "starts_with p s \<longleftrightarrow> (\<exists>suf. s = p @ suf)"
  by (induction p s rule: starts_with.induct) auto

lemma substring_in_iff: "substring_in p s \<longleftrightarrow> (\<exists>pre suf. s = pre @ p @ suf)"
proof (induction s)
  case Nil
  then show ?case by auto
next
  case (Cons c cs)
  show ?case
  proof
    assume "substring_in p (c # cs)"
    then consider "starts_with p (c # cs)" | "substring_in p cs" by auto
    then show "\<exists>pre suf. c # cs = pre @ p @ suf"
    proof cases
      case 1
      then obtain suf where "c # cs = p @ suf" by (auto simp: starts_with_iff)
      then have "c # cs = [] @ p @ suf" by simp
      then show ?thesis by blast
    next
      case 2
      with Cons obtain pre suf where "cs = pre @ p @ suf" by blast
      then have "c # cs = (c # pre) @ p @ suf" by simp
      then show ?thesis by blast
    qed
  next
    assume "\<exists>pre suf. c # cs = pre @ p @ suf"
    then obtain pre suf where e: "c # cs = pre @ p @ suf" by blast
    show "substring_in p (c # cs)"
    proof (cases pre)
      case Nil
      with e have "starts_with p (c # cs)" by (auto simp: starts_with_iff)
      then show ?thesis by simp
    next
      case (Cons x pre')
      with e have "cs = pre' @ p @ suf" by simp
      with Cons.IH have "substring_in p cs" by blast
      then show ?thesis by simp
    qed
  qed
qed

lemma pairs_loop_iff:
  "pairs_loop t1 t2 pairs \<longleftrightarrow>
   (\<exists>(pos, neg) \<in> set pairs.
      (substring_in pos (lower t1) \<and> substring_in neg (lower t2)) \<or>
      (substring_in neg (lower t1) \<and> substring_in pos (lower t2)))"
  by (induction t1 t2 pairs rule: pairs_loop.induct) auto

lemma arguments_conflict_iff:
  "arguments_conflict sim arg1 arg2 \<longleftrightarrow>
   a_type arg1 = a_type arg2 \<and>
   (\<exists>s. sim (a_text arg1) (a_text arg2) = Some s \<and> 0.7 < s) \<and>
   (\<exists>(pos, neg) \<in> set opposing_pairs.
      (substring_in pos (lower (a_text arg1)) \<and> substring_in neg (lower (a_text arg2))) \<or>
      (substring_in neg (lower (a_text arg1)) \<and> substring_in pos (lower (a_text arg2))))"
  by (auto simp: arguments_conflict_def pairs_loop_iff split: option.splits)

lemma arguments_conflict_cong:
  "a_text x = a_text x' \<Longrightarrow> a_type x = a_type x' \<Longrightarrow>
   a_text y = a_text y' \<Longrightarrow> a_type y = a_type y' \<Longrightarrow>
   arguments_conflict sim x y = arguments_conflict sim x' y'"
  by (auto simp: arguments_conflict_def split: option.splits)

lemma conflicts_loop_frame:
  "conflicts_loop sim a opps h =
     h(a := (h a)\<lparr>counter_arguments := counter_arguments (conflicts_loop sim a opps h a)\<rparr>)"
proof (induction opps arbitrary: h)
  case Nil
  show ?case by simp
next
  case (Cons opp opps)
  let ?h' = "if arguments_conflict sim (h a) (h opp)
        then h(a := (h a)
               \<lparr>counter_arguments := counter_arguments (h a) @ [a_text (h opp)]\<rparr>)
        else h"
  have step: "conflicts_loop sim a (opp # opps) h = conflicts_loop sim a opps ?h'"
    by simp
  have "conflicts_loop sim a opps ?h' =
      ?h'(a := (?h' a)\<lparr>counter_arguments := counter_arguments (conflicts_loop sim a opps ?h' a)\<rparr>)"
    by (rule Cons.IH)
  also have "\<dots> = h(a := (h a)\<lparr>counter_arguments := counter_arguments (conflicts_loop sim a opps ?h' a)\<rparr>)"
    by (auto simp: fun_eq_iff)
  finally show ?case
    unfolding step .
qed

lemma conflicts_loop_links:
  "counter_arguments (conflicts_loop sim a opps h a) =
     counter_arguments (h a) @
     map (\<lambda>opp. a_text (h opp)) (filter (\<lambda>opp. arguments_conflict sim (h a) (h opp)) opps)"
proof (induction opps arbitrary: h)
  case Nil
  show ?case by simp
next
  case (Cons opp opps)
  let ?h' = "h(a := (h a)
               \<lparr>counter_arguments := counter_arguments (h a) @ [a_text (h opp)]\<rparr>)"
  have text_eq: "a_text (?h' r) = a_text (h r)" and type_eq: "a_type (?h' r) = a_type (h r)" for r
    by simp_all
  have conf: "arguments_conflict sim (?h' a) (?h' r) = arguments_conflict sim (h a) (h r)" for r
    by (rule arguments_conflict_cong) (simp_all only: text_eq type_eq)
  show ?case
  proof (cases "arguments_conflict sim (h a) (h opp)")
    case True
    then have "conflicts_loop sim a (opp # opps) h = conflicts_loop sim a opps ?h'"
      by simp
    then have "counter_arguments (conflicts_loop sim a (opp # opps) h a) =
        counter_arguments (?h' a) @
        map (\<lambda>opp. a_text (?h' opp))
          (filter (\<lambda>opp. arguments_conflict sim (?h' a) (?h' opp)) opps)"
      by (simp only: Cons.IH)
    also have "\<dots> = (counter_arguments (h a) @ [a_text (h opp)]) @
        map (\<lambda>opp. a_text (h opp)) (filter (\<lambda>opp. arguments_conflict sim (h a) (h opp)) opps)"
      by (simp only: text_eq conf) simp
    finally show ?thesis
      using True by simp
  next
    case False
    then show ?thesis
      by (simp add: Cons.IH)
  qed
qed

lemma add_prosecution_store:
  "store (add_prosecution_argument sim a s) = conflicts_loop sim a (defense_track s) (store s)"
  by (simp add: add_prosecution_argument_def analyze_argument_conflicts_def)

lemma add_defense_store:
  "store (add_defense_argument sim a s) = conflicts_loop sim a (prosecution_track s) (store s)"
  by (simp add: add_defense_argument_def analyze_argument_conflicts_def)

lemma add_prosecution_frame:
  "r \<noteq> a \<Longrightarrow> store (add_prosecution_argument sim a s) r = store s r"
  by (subst add_prosecution_store, subst conflicts_loop_frame) simp

lemma add_defense_frame:
  "r \<noteq> a \<Longrightarrow> store (add_defense_argument sim a s) r = store s r"
  by (subst add_defense_store, subst conflicts_loop_frame) simp

lemma add_all_frame:
  "r \<notin> snd ` set additions \<Longrightarrow> store (add_all sim additions s) r = store s r"
proof (induction additions arbitrary: s)
  case Nil
  show ?case by simp
next
  case (Cons x additions)
  obtain prosecution a where x: "x = (prosecution, a)" by (cases x)
  from Cons.prems x have ne: "r \<noteq> a" and rest: "r \<notin> snd ` set additions"
    by auto
  show ?case
    using Cons.IH [OF rest] ne
    by (simp add: x add_prosecution_frame add_defense_frame)
qed

text \<open>
  C7: \<^verbatim>\<open>_arguments_conflict\<close> holds of two arguments if and only if their type tags are
  equal, their similarity exceeds 0.7, and the lowered text of one contains the positive
  term and the lowered text of the other the negative term of one of the three pairs
  supports/opposes, proves/disproves, confirms/contradicts.  So arguments of different
  types, or of similarity at most 0.7, never conflict.  Registering an argument appends
  to its \<^verbatim>\<open>counter_arguments\<close> the texts of exactly the arguments of the opposing track
  it conflicts with, in track order.
\<close>

theorem C7_conflict_link:
  "(arguments_conflict sim arg1 arg2 \<longleftrightarrow>
      a_type arg1 = a_type arg2 \<and>
      (\<exists>s. sim (a_text arg1) (a_text arg2) = Some s \<and> 0.7 < s) \<and>
      (\<exists>(pos, neg) \<in> {(''supports'', ''opposes''), (''proves'', ''disproves''),
                       (''confirms'', ''contradicts'')}.
         (substring_in pos (lower (a_text arg1)) \<and> substring_in neg (lower (a_text arg2))) \<or>
         (substring_in neg (lower (a_text arg1)) \<and> substring_in pos (lower (a_text arg2))))) \<and>
   (a_type arg1 \<noteq> a_type arg2 \<longrightarrow> \<not> arguments_conflict sim arg1 arg2) \<and>
   (sim (a_text arg1) (a_text arg2) = Some s \<and> s \<le> 0.7 \<longrightarrow>
      \<not> arguments_conflict sim arg1 arg2) \<and>
   counter_arguments (store (add_prosecution_argument sim a st) a) =
     counter_arguments (store st a) @
     map (\<lambda>opp. a_text (store st opp))
       (filter (\<lambda>opp. arguments_conflict sim (store st a) (store st opp)) (defense_track st)) \<and>
   counter_arguments (store (add_defense_argument sim a st) a) =
     counter_arguments (store st a) @
     map (\<lambda>opp. a_text (store st opp))
       (filter (\<lambda>opp. arguments_conflict sim (store st a) (store st opp))
          (prosecution_track st))"
proof -
  have 1: "arguments_conflict sim arg1 arg2 \<longleftrightarrow>
      a_type arg1 = a_type arg2 \<and>
      (\<exists>s. sim (a_text arg1) (a_text arg2) = Some s \<and> 0.7 < s) \<and>
      (\<exists>(pos, neg) \<in> {(''supports'', ''opposes''), (''proves'', ''disproves''),
                       (''confirms'', ''contradicts'')}.
         (substring_in pos (lower (a_text arg1)) \<and> substring_in neg (lower (a_text arg2))) \<or>
         (substring_in neg (lower (a_text arg1)) \<and> substring_in pos (lower (a_text arg2))))"
    unfolding arguments_conflict_iff by (simp add: opposing_pairs_def)
  have 2: "a_type arg1 \<noteq> a_type arg2 \<longrightarrow> \<not> arguments_conflict sim arg1 arg2"
    by (simp add: arguments_conflict_def)
  have 3: "sim (a_text arg1) (a_text arg2) = Some s \<and> s \<le> 0.7 \<longrightarrow>
      \<not> arguments_conflict sim arg1 arg2"
    by (auto simp: arguments_conflict_def)
  have 4: "counter_arguments (store (add_prosecution_argument sim a st) a) =
     counter_arguments (store st a) @
     map (\<lambda>opp. a_text (store st opp))
       (filter (\<lambda>opp. arguments_conflict sim (store st a) (store st opp)) (defense_track st))"
    by (simp only: add_prosecution_store conflicts_loop_links)
  have 5: "counter_arguments (store (add_defense_argument sim a st) a) =
     counter_arguments (store st a) @
     map (\<lambda>opp. a_text (store st opp))
       (filter (\<lambda>opp. arguments_conflict sim (store st a) (store st opp))
          (prosecution_track st))"
    by (simp only: add_defense_store conflicts_loop_links)
  from 1 2 3 4 5 show ?thesis by blast
qed

text \<open>
  C9: registering an argument on either track changes nothing in the store but the
  \<^verbatim>\<open>counter_arguments\<close> of the registered argument, and appends its reference to its
  own track only.  So when the registered argument is new (on neither track yet), every
  argument previously added to either track is unchanged; and over any sequence of
  additions, an argument that the sequence does not register is unchanged.
\<close>

theorem C9_no_retroactive_linkage:
  "store (add_prosecution_argument sim a s) =
     (store s)(a := (store s a)
        \<lparr>counter_arguments := counter_arguments (store (add_prosecution_argument sim a s) a)\<rparr>) \<and>
   store (add_defense_argument sim a s) =
     (store s)(a := (store s a)
        \<lparr>counter_arguments := counter_arguments (store (add_defense_argument sim a s) a)\<rparr>) \<and>
   prosecution_track (add_prosecution_argument sim a s) = prosecution_track s @ [a] \<and>
   defense_track (add_prosecution_argument sim a s) = defense_track s \<and>
   prosecution_track (add_defense_argument sim a s) = prosecution_track s \<and>
   defense_track (add_defense_argument sim a s) = defense_track s @ [a] \<and>
   (a \<notin> set (prosecution_track s) \<union> set (defense_track s) \<longrightarrow>
      (\<forall>r \<in> set (prosecution_track s) \<union> set (defense_track s).
         store (add_prosecution_argument sim a s) r = store s r \<and>
         store (add_defense_argument sim a s) r = store s r)) \<and>
   (r \<notin> snd ` set additions \<longrightarrow> store (add_all sim additions s) r = store s r)"
proof -
  have 1: "store (add_prosecution_argument sim a s) =
     (store s)(a := (store s a)
        \<lparr>counter_arguments := counter_arguments (store (add_prosecution_argument sim a s) a)\<rparr>)"
    unfolding add_prosecution_store by (rule conflicts_loop_frame)
  have 2: "store (add_defense_argument sim a s) =
     (store s)(a := (store s a)
        \<lparr>counter_arguments := counter_arguments (store (add_defense_argument sim a s) a)\<rparr>)"
    unfolding add_defense_store by (rule conflicts_loop_frame)
  have 3: "prosecution_track (add_prosecution_argument sim a s) = prosecution_track s @ [a] \<and>
   defense_track (add_prosecution_argument sim a s) = defense_track s \<and>
   prosecution_track (add_defense_argument sim a s) = prosecution_track s \<and>
   defense_track (add_defense_argument sim a s) = defense_track s @ [a]"
    by (simp add: add_prosecution_argument_def add_defense_argument_def
        analyze_argument_conflicts_def)
  have 4: "\<forall>r \<in> set (prosecution_track s) \<union> set (defense_track s).
         store (add_prosecution_argument sim a s) r = store s r \<and>
         store (add_defense_argument sim a s) r = store s r"
    if "a \<notin> set (prosecution_track s) \<union> set (defense_track s)"
  proof
    fix r assume "r \<in> set (prosecution_track s) \<union> set (defense_track s)"
    with that have "r \<noteq> a" by blast
    then show "store (add_prosecution_argument sim a s) r = store s r \<and>
         store (add_defense_argument sim a s) r = store s r"
      by (simp add: add_prosecution_frame add_defense_frame)
  qed
  have 5: "store (add_all sim additions s) r = store s r" if "r \<notin> snd ` set additions"
    using that by (rule add_all_frame)
  from 1 2 3 4 5 show ?thesis by blast
qed

lemma example_conflict:
  "arguments_conflict (\<lambda>t1 t2. Some 0.9)
     \<lparr>a_text = ''This proves intent'', a_type = LEGAL, strength = 0.8,
        supporting_citations = [], counter_arguments = []\<rparr>
     \<lparr>a_text = ''This Disproves intent'', a_type = LEGAL, strength = 0.6,
        supporting_citations = [], counter_arguments = []\<rparr>"
  by (simp add: arguments_conflict_def opposing_pairs_def lower_def lower_char_def dict_get_def)

theorem C7_conflict_link_witness:
  "arguments_conflict (\<lambda>t1 t2. Some 0.9)
     \<lparr>a_text = ''This proves intent'', a_type = LEGAL, strength = 0.8,
        supporting_citations = [], counter_arguments = []\<rparr>
     \<lparr>a_text = ''This Disproves intent'', a_type = LEGAL, strength = 0.6,
        supporting_citations = [], counter_arguments = []\<rparr> \<and>
   \<not> arguments_conflict (\<lambda>t1 t2. Some 0.7)
     \<lparr>a_text = ''This proves intent'', a_type = LEGAL, strength = 0.8,
        supporting_citations = [], counter_arguments = []\<rparr>
     \<lparr>a_text = ''This Disproves intent'', a_type = LEGAL, strength = 0.6,
        supporting_citations = [], counter_arguments = []\<rparr> \<and>
   \<not> arguments_conflict (\<lambda>t1 t2. Some 0.9)
     \<lparr>a_text = ''This proves intent'', a_type = LEGAL, strength = 0.8,
        supporting_citations = [], counter_arguments = []\<rparr>
     \<lparr>a_text = ''This Disproves intent'', a_type = FACTUAL, strength = 0.6,
        supporting_citations = [], counter_arguments = []\<rparr> \<and>
   counter_arguments (store (add_prosecution_argument (\<lambda>t1 t2. Some 0.9) 1
     \<lparr>prosecution_track = [], defense_track = [0], shared_facts = [], disputed_facts = [],
        store = (\<lambda>r. if r = 0 then \<lparr>a_text = ''This Disproves intent'', a_type = LEGAL, strength = 0.6,
          supporting_citations = [], counter_arguments = []\<rparr> else \<lparr>a_text = ''This proves intent'', a_type = LEGAL, strength = 0.8,
          supporting_citations = [], counter_arguments = []\<rparr>)\<rparr>) 1) = [''This Disproves intent'']"
proof -
  let ?P = "\<lparr>a_text = ''This proves intent'', a_type = LEGAL, strength = 0.8,
        supporting_citations = [], counter_arguments = []\<rparr>"
  let ?D = "\<lparr>a_text = ''This Disproves intent'', a_type = LEGAL, strength = 0.6,
        supporting_citations = [], counter_arguments = []\<rparr>"
  let ?DF = "\<lparr>a_text = ''This Disproves intent'', a_type = FACTUAL, strength = 0.6,
        supporting_citations = [], counter_arguments = []\<rparr>"
  let ?st = "\<lparr>prosecution_track = [], defense_track = [0], shared_facts = [], disputed_facts = [],
        store = (\<lambda>r. if r = 0 then \<lparr>a_text = ''This Disproves intent'', a_type = LEGAL, strength = 0.6,
          supporting_citations = [], counter_arguments = []\<rparr> else \<lparr>a_text = ''This proves intent'', a_type = LEGAL, strength = 0.8,
          supporting_citations = [], counter_arguments = []\<rparr>)\<rparr>"
  have low: "substring_in ''proves'' (lower (a_text ?P))"
    "substring_in ''disproves'' (lower (a_text ?D))"
    by (simp_all add: lower_def lower_char_def dict_get_def)
  from C7_conflict_link [of "\<lambda>t1 t2. Some 0.9" ?P ?D] low
  have a: "arguments_conflict (\<lambda>t1 t2. Some 0.9) ?P ?D"
    by simp (rule exI [of _ "9 / 10"], simp)
  from C7_conflict_link [of "\<lambda>t1 t2. Some 0.7" ?P ?D "0.7"]
  have b: "\<not> arguments_conflict (\<lambda>t1 t2. Some 0.7) ?P ?D"
    by simp
  from C7_conflict_link [of "\<lambda>t1 t2. Some 0.9" ?P ?DF]
  have c: "\<not> arguments_conflict (\<lambda>t1 t2. Some 0.9) ?P ?DF"
    by simp
  from C7_conflict_link [of "\<lambda>t1 t2. Some 0.9" _ _ _ 1 ?st] a
  have d: "counter_arguments (store (add_prosecution_argument (\<lambda>t1 t2. Some 0.9) 1 ?st) 1) =
      [''This Disproves intent'']"
    by simp
  from a b c d show ?thesis by blast
qed

theorem C9_no_retroactive_linkage_witness:
  "1 \<notin> set (prosecution_track \<lparr>prosecution_track = [], defense_track = [0], shared_facts = [], disputed_facts = [],
        store = (\<lambda>r. if r = 0 then \<lparr>a_text = ''This Disproves intent'', a_type = LEGAL, strength = 0.6,
          supporting_citations = [], counter_arguments = []\<rparr> else \<lparr>a_text = ''This proves intent'', a_type = LEGAL, strength = 0.8,
          supporting_citations = [], counter_arguments = []\<rparr>)\<rparr>) \<union> set (defense_track \<lparr>prosecution_track = [], defense_track = [0], shared_facts = [], disputed_facts = [],
        store = (\<lambda>r. if r = 0 then \<lparr>a_text = ''This Disproves intent'', a_type = LEGAL, strength = 0.6,
          supporting_citations = [], counter_arguments = []\<rparr> else \<lparr>a_text = ''This proves intent'', a_type = LEGAL, strength = 0.8,
          supporting_citations = [], counter_arguments = []\<rparr>)\<rparr>) \<and>
   store (add_prosecution_argument (\<lambda>t1 t2. Some 0.9) 1
     \<lparr>prosecution_track = [], defense_track = [0], shared_facts = [], disputed_facts = [],
        store = (\<lambda>r. if r = 0 then \<lparr>a_text = ''This Disproves intent'', a_type = LEGAL, strength = 0.6,
          supporting_citations = [], counter_arguments = []\<rparr> else \<lparr>a_text = ''This proves intent'', a_type = LEGAL, strength = 0.8,
          supporting_citations = [], counter_arguments = []\<rparr>)\<rparr>) 0 =
     \<lparr>a_text = ''This Disproves intent'', a_type = LEGAL, strength = 0.6,
        supporting_citations = [], counter_arguments = []\<rparr> \<and>
   store (add_all (\<lambda>t1 t2. Some 0.9) [(True, 1)]
     \<lparr>prosecution_track = [], defense_track = [0], shared_facts = [], disputed_facts = [],
        store = (\<lambda>r. if r = 0 then \<lparr>a_text = ''This Disproves intent'', a_type = LEGAL, strength = 0.6,
          supporting_citations = [], counter_arguments = []\<rparr> else \<lparr>a_text = ''This proves intent'', a_type = LEGAL, strength = 0.8,
          supporting_citations = [], counter_arguments = []\<rparr>)\<rparr>) 0 =
     \<lparr>a_text = ''This Disproves intent'', a_type = LEGAL, strength = 0.6,
        supporting_citations = [], counter_arguments = []\<rparr> \<and>
   counter_arguments (store (add_prosecution_argument (\<lambda>t1 t2. Some 0.9) 1
     \<lparr>prosecution_track = [], defense_track = [0], shared_facts = [], disputed_facts = [],
        store = (\<lambda>r. if r = 0 then \<lparr>a_text = ''This Disproves intent'', a_type = LEGAL, strength = 0.6,
          supporting_citations = [], counter_arguments = []\<rparr> else \<lparr>a_text = ''This proves intent'', a_type = LEGAL, strength = 0.8,
          supporting_citations = [], counter_arguments = []\<rparr>)\<rparr>) 1) = [''This Disproves intent'']"
proof -
  let ?P = "\<lparr>a_text = ''This proves intent'', a_type = LEGAL, strength = 0.8,
        supporting_citations = [], counter_arguments = []\<rparr>"
  let ?D = "\<lparr>a_text = ''This Disproves intent'', a_type = LEGAL, strength = 0.6,
        supporting_citations = [], counter_arguments = []\<rparr>"
  let ?st = "\<lparr>prosecution_track = [], defense_track = [0], shared_facts = [], disputed_facts = [],
        store = (\<lambda>r. if r = 0 then \<lparr>a_text = ''This Disproves intent'', a_type = LEGAL, strength = 0.6,
          supporting_citations = [], counter_arguments = []\<rparr> else \<lparr>a_text = ''This proves intent'', a_type = LEGAL, strength = 0.8,
          supporting_citations = [], counter_arguments = []\<rparr>)\<rparr>"
  have fresh: "1 \<notin> set (prosecution_track ?st) \<union> set (defense_track ?st)"
    by simp
  have link: "counter_arguments (store (add_prosecution_argument (\<lambda>t1 t2. Some 0.9) 1 ?st) 1) =
      [''This Disproves intent'']"
    using example_conflict
    by (simp add: add_prosecution_store)
  from C9_no_retroactive_linkage [of "\<lambda>t1 t2. Some 0.9" 1 ?st 0 "[(True, 1)]"] fresh
  have "store (add_prosecution_argument (\<lambda>t1 t2. Some 0.9) 1 ?st) 0 = ?D"
    and "store (add_all (\<lambda>t1 t2. Some 0.9) [(True, 1)] ?st) 0 = ?D"
    by simp_all
  with fresh link show ?thesis by blast
qed

section \<open>Point weighting in float arithmetic\<close>

lemma round_half_even_error: "\<bar>of_int (round_half_even y) - y\<bar> \<le> 1 / 2"
proof -
  have "of_int \<lfloor>y\<rfloor> \<le> y" and "y < of_int \<lfloor>y\<rfloor> + 1"
    by linarith+
  then show ?thesis
    by (auto simp: round_half_even_def Let_def)
qed

lemma round_half_even_nonneg: "0 \<le> y \<Longrightarrow> 0 \<le> round_half_even y"
  by (auto simp: round_half_even_def Let_def)

lemma round_half_even_of_int: "round_half_even (of_int m) = m"
  by (simp add: round_half_even_def)

lemma powr_two_of_int: "(2::real) powr real_of_int k = 2 powi k"
  by (rule powr_real_of_int') simp_all

lemma floor_log2_iff:
  "0 < x \<Longrightarrow> \<lfloor>log 2 x\<rfloor> = k \<longleftrightarrow> 2 powi k \<le> x \<and> x < 2 powi (k + 1)"
  using floor_log_eq_powr_iff [of x 2 k] unfolding powr_two_of_int by simp

lemma floor_log2_bracket:
  assumes "x \<noteq> 0"
  shows "2 powi \<lfloor>log 2 \<bar>x\<bar>\<rfloor> \<le> \<bar>x\<bar>" and "\<bar>x\<bar> < 2 powi (\<lfloor>log 2 \<bar>x\<bar>\<rfloor> + 1)"
proof -
  from assms have pos: "0 < \<bar>x\<bar>" by simp
  from floor_log2_iff [OF pos, of "\<lfloor>log 2 \<bar>x\<bar>\<rfloor>"]
  show "2 powi \<lfloor>log 2 \<bar>x\<bar>\<rfloor> \<le> \<bar>x\<bar>" and "\<bar>x\<bar> < 2 powi (\<lfloor>log 2 \<bar>x\<bar>\<rfloor> + 1)"
    by simp_all
qed

lemma floor_log2_eq:
  assumes "2 powi k \<le> \<bar>x\<bar>" and "\<bar>x\<bar> < 2 powi (k + 1)"
  shows "\<lfloor>log 2 \<bar>x\<bar>\<rfloor> = k"
proof -
  have "(0::real) < 2 powi k" by simp
  with assms(1) have pos: "0 < \<bar>x\<bar>" by linarith
  from floor_log2_iff [OF pos, of k] assms show ?thesis
    by simp
qed

lemma ten_le_two: "(10::real) ^ 15 \<le> 2 ^ 53" and ten300_le_two: "(10::real) ^ 300 \<le> 2 ^ 1075"
  by simp_all

lemma round_double_error: "\<bar>round_double x - x\<bar> \<le> \<bar>x\<bar> / 10 ^ 15 + 1 / 10 ^ 300"
proof (cases "x = 0")
  case True
  then show ?thesis by (simp add: round_double_def)
next
  case False
  define L where "L = \<lfloor>log 2 \<bar>x\<bar>\<rfloor>"
  define e where "e = max (L - 52) (- 1074)"
  define p :: real where "p = 2 powi e"
  have p_pos: "0 < p" by (simp add: p_def)
  have low: "2 powi L \<le> \<bar>x\<bar>"
    unfolding L_def by (rule floor_log2_bracket [OF False])
  have rd: "round_double x = of_int (round_half_even (x / p)) * p"
    using False by (simp add: round_double_def Let_def L_def e_def p_def)
  have "round_double x - x = (of_int (round_half_even (x / p)) - x / p) * p"
    using p_pos by (simp add: rd algebra_simps)
  then have "\<bar>round_double x - x\<bar> = \<bar>of_int (round_half_even (x / p)) - x / p\<bar> * p"
    using p_pos by (simp add: abs_mult)
  also have "\<dots> \<le> (1 / 2) * p"
    using round_half_even_error [of "x / p"] p_pos by (intro mult_right_mono) simp_all
  finally have half: "\<bar>round_double x - x\<bar> \<le> p / 2"
    by simp
  show ?thesis
  proof (cases "- 1074 \<le> L - 52")
    case True
    then have "e = L - 52" by (simp add: e_def)
    then have "p = 2 powi L / 2 ^ 52"
      by (simp add: p_def power_int_diff)
    then have "p / 2 = 2 powi L / 2 ^ 53"
      by simp
    also have "\<dots> \<le> \<bar>x\<bar> / 2 ^ 53"
      using low by (simp add: divide_right_mono)
    also have "\<dots> \<le> \<bar>x\<bar> / 10 ^ 15"
      by (intro divide_left_mono) simp_all
    finally have "p / 2 \<le> \<bar>x\<bar> / 10 ^ 15" .
    with half show ?thesis by simp
  next
    case False
    then have "e = - 1074" by (simp add: e_def)
    then have "p / 2 = 1 / 2 ^ 1075"
      by (simp add: p_def power_int_minus)
    also have "\<dots> \<le> 1 / 10 ^ 300"
      by (intro divide_left_mono) simp_all
    finally have "p / 2 \<le> 1 / 10 ^ 300" .
    moreover have "0 \<le> \<bar>x\<bar> / 10 ^ 15"
      by simp
    ultimately show ?thesis
      using half by linarith
  qed
qed

lemma round_double_nonneg: "0 \<le> x \<Longrightarrow> 0 \<le> round_double x"
  by (simp add: round_double_def Let_def round_half_even_nonneg)

lemma round_double_exact:
  assumes x: "x = of_int m * 2 powi e" and m: "2 ^ 52 \<le> \<bar>m\<bar>" "\<bar>m\<bar> < 2 ^ 53" and e: "- 1074 \<le> e"
  shows "round_double x = x"
proof -
  have ax: "\<bar>x\<bar> = of_int \<bar>m\<bar> * 2 powi e"
    by (simp add: x abs_mult)
  have "(2::real) powi (e + 52) = 2 ^ 52 * 2 powi e"
    by (simp add: power_int_add)
  also have "\<dots> \<le> of_int \<bar>m\<bar> * 2 powi e"
    using m(1) by (intro mult_right_mono) (simp_all add: of_int_le_iff [symmetric] del: of_int_le_iff)
  finally have low: "2 powi (e + 52) \<le> \<bar>x\<bar>"
    by (simp only: ax)
  have "of_int \<bar>m\<bar> * 2 powi e < (2::real) ^ 53 * 2 powi e"
    using m(2) by (intro mult_strict_right_mono) (simp_all add: of_int_less_iff [symmetric] del: of_int_less_iff)
  also have "\<dots> = 2 powi (e + 52 + 1)"
    by (simp add: power_int_add)
  finally have up: "\<bar>x\<bar> < 2 powi (e + 52 + 1)"
    by (simp only: ax)
  have L: "\<lfloor>log 2 \<bar>x\<bar>\<rfloor> = e + 52"
    by (rule floor_log2_eq [OF low up])
  from m(1) have "m \<noteq> 0" by auto
  then have nz: "x \<noteq> 0" by (simp add: x)
  have "max (e + 52 - 52) (- 1074) = e"
    using e by simp
  then have "round_double x = of_int (round_half_even (x / 2 powi e)) * 2 powi e"
    using nz by (simp add: round_double_def L Let_def)
  moreover have "x / 2 powi e = of_int m"
    by (simp add: x)
  ultimately show ?thesis
    by (simp add: round_half_even_of_int x)
qed

lemma round_double_values:
  "round_double 1 = 1" "round_double (1 / 2) = 1 / 2"
  "round_double (- 1) = - 1" "round_double (- (1 / 2)) = - (1 / 2)"
proof -
  show "round_double 1 = 1"
    by (rule round_double_exact [of _ "2 ^ 52" "- 52"]) simp_all
  show "round_double (1 / 2) = 1 / 2"
    by (rule round_double_exact [of _ "2 ^ 52" "- 53"]) simp_all
  show "round_double (- 1) = - 1"
    by (rule round_double_exact [of _ "- (2 ^ 52)" "- 52"]) simp_all
  show "round_double (- (1 / 2)) = - (1 / 2)"
    by (rule round_double_exact [of _ "- (2 ^ 52)" "- 53"]) simp_all
qed

lemma round_double_step:
  assumes "0 \<le> y"
  shows "0 \<le> round_double y"
    and "y - y / 10 ^ 15 - 1 / 10 ^ 300 \<le> round_double y"
    and "round_double y \<le> y + y / 10 ^ 15 + 1 / 10 ^ 300"
proof -
  show "0 \<le> round_double y"
    by (rule round_double_nonneg [OF assms])
  from round_double_error [of y] assms
  have "\<bar>round_double y - y\<bar> \<le> y / 10 ^ 15 + 1 / 10 ^ 300"
    by simp
  then show "y - y / 10 ^ 15 - 1 / 10 ^ 300 \<le> round_double y"
    and "round_double y \<le> y + y / 10 ^ 15 + 1 / 10 ^ 300"
    by linarith+
qed

lemma list_of_length_5:
  assumes "length xs = 5"
  obtains a b c d e where "xs = [a, b, c, d, e]"
proof -
  from assms obtain a xs1 where 1: "xs = a # xs1" "length xs1 = 4"
    by (cases xs) auto
  then obtain b xs2 where 2: "xs1 = b # xs2" "length xs2 = 3"
    by (cases xs1) auto
  then obtain c xs3 where 3: "xs2 = c # xs3" "length xs3 = 2"
    by (cases xs2) auto
  then obtain d xs4 where 4: "xs3 = d # xs4" "length xs4 = 1"
    by (cases xs3) auto
  then obtain e where 5: "xs4 = [e]"
    by (cases xs4) auto
  from 1 2 3 4 5 have "xs = [a, b, c, d, e]" by simp
  then show thesis by (rule that)
qed

lemma rounded_sum_bound:
  fixes a b c d e eta :: real
  assumes nn: "0 \<le> a" "0 \<le> b" "0 \<le> c" "0 \<le> d" "0 \<le> e" "0 \<le> eta"
    and b1: "0 \<le> s1" "a - a / 10 ^ 15 - eta \<le> s1" "s1 \<le> a + a / 10 ^ 15 + eta"
    and b2: "0 \<le> s2" "(s1 + b) - (s1 + b) / 10 ^ 15 - eta \<le> s2"
      "s2 \<le> (s1 + b) + (s1 + b) / 10 ^ 15 + eta"
    and b3: "0 \<le> s3" "(s2 + c) - (s2 + c) / 10 ^ 15 - eta \<le> s3"
      "s3 \<le> (s2 + c) + (s2 + c) / 10 ^ 15 + eta"
    and b4: "0 \<le> s4" "(s3 + d) - (s3 + d) / 10 ^ 15 - eta \<le> s4"
      "s4 \<le> (s3 + d) + (s3 + d) / 10 ^ 15 + eta"
    and b5: "0 \<le> s5" "(s4 + e) - (s4 + e) / 10 ^ 15 - eta \<le> s5"
      "s5 \<le> (s4 + e) + (s4 + e) / 10 ^ 15 + eta"
  shows "\<bar>s5 - (a + b + c + d + e)\<bar> \<le> (a + b + c + d + e) / 10 ^ 14 + 10 * eta"
proof -
  have num: "(10::real) ^ 15 = 1000000000000000" "(10::real) ^ 14 = 100000000000000"
    by simp_all
  have u2: "s2 \<le> (a + b) + 3 * (a + b) / 10 ^ 15 + 3 * eta"
    using nn(1,2,6) b1(3) b2(3) unfolding num by argo
  have u3: "s3 \<le> (a + b + c) + 5 * (a + b + c) / 10 ^ 15 + 5 * eta"
    using nn(1,2,3,6) u2 b3(3) unfolding num by argo
  have u4: "s4 \<le> (a + b + c + d) + 7 * (a + b + c + d) / 10 ^ 15 + 7 * eta"
    using nn(1,2,3,4,6) u3 b4(3) unfolding num by argo
  have u5: "s5 \<le> (a + b + c + d + e) + 9 * (a + b + c + d + e) / 10 ^ 15 + 9 * eta"
    using nn u4 b5(3) unfolding num by argo
  have l2: "(a + b) - 2 * (a + b) / 10 ^ 15 - 3 * eta \<le> s2"
    using nn(1,2,6) b1(2) b2(2) unfolding num by argo
  have l3: "(a + b + c) - 3 * (a + b + c) / 10 ^ 15 - 5 * eta \<le> s3"
    using nn(1,2,3,6) l2 b3(2) unfolding num by argo
  have l4: "(a + b + c + d) - 4 * (a + b + c + d) / 10 ^ 15 - 7 * eta \<le> s4"
    using nn(1,2,3,4,6) l3 b4(2) unfolding num by argo
  have l5: "(a + b + c + d + e) - 5 * (a + b + c + d + e) / 10 ^ 15 - 9 * eta \<le> s5"
    using nn l4 b5(2) unfolding num by argo
  from u5 l5 nn show ?thesis
    unfolding num by argo
qed

lemma double_sum_bound:
  assumes len: "length xs = 5" and nonneg: "\<forall>x \<in> set xs. 0 \<le> x"
  shows "\<bar>fl_sum double_arith xs - sum_list xs\<bar> \<le> sum_list xs / 10 ^ 14 + 1 / 10 ^ 299"
proof -
  from len obtain a b c d e where xs: "xs = [a, b, c, d, e]"
    by (rule list_of_length_5)
  with nonneg have nn: "0 \<le> a" "0 \<le> b" "0 \<le> c" "0 \<le> d" "0 \<le> e"
    by simp_all
  define eta :: real where "eta = 1 / 10 ^ 300"
  have eta: "0 \<le> eta" "10 * eta = 1 / 10 ^ 299"
    by (simp_all add: eta_def)
  define s1 where "s1 = round_double (0 + a)"
  define s2 where "s2 = round_double (s1 + b)"
  define s3 where "s3 = round_double (s2 + c)"
  define s4 where "s4 = round_double (s3 + d)"
  define s5 where "s5 = round_double (s4 + e)"
  have T: "fl_sum double_arith xs = s5"
    by (simp add: double_arith_def xs s1_def s2_def s3_def s4_def s5_def)
  have S: "sum_list xs = a + b + c + d + e"
    by (simp add: xs)
  note st = round_double_step [folded eta_def]
  have b1: "0 \<le> s1" "a - a / 10 ^ 15 - eta \<le> s1" "s1 \<le> a + a / 10 ^ 15 + eta"
    using st [of "0 + a"] nn unfolding s1_def by simp_all
  have b2: "0 \<le> s2" "(s1 + b) - (s1 + b) / 10 ^ 15 - eta \<le> s2"
    "s2 \<le> (s1 + b) + (s1 + b) / 10 ^ 15 + eta"
    using st [of "s1 + b"] nn b1(1) unfolding s2_def by simp_all
  have b3: "0 \<le> s3" "(s2 + c) - (s2 + c) / 10 ^ 15 - eta \<le> s3"
    "s3 \<le> (s2 + c) + (s2 + c) / 10 ^ 15 + eta"
    using st [of "s2 + c"] nn b2(1) unfolding s3_def by simp_all
  have b4: "0 \<le> s4" "(s3 + d) - (s3 + d) / 10 ^ 15 - eta \<le> s4"
    "s4 \<le> (s3 + d) + (s3 + d) / 10 ^ 15 + eta"
    using st [of "s3 + d"] nn b3(1) unfolding s4_def by simp_all
  have b5: "0 \<le> s5" "(s4 + e) - (s4 + e) / 10 ^ 15 - eta \<le> s5"
    "s5 \<le> (s4 + e) + (s4 + e) / 10 ^ 15 + eta"
    using st [of "s4 + e"] nn b4(1) unfolding s5_def by simp_all
  have "\<bar>s5 - (a + b + c + d + e)\<bar> \<le> (a + b + c + d + e) / 10 ^ 14 + 10 * eta"
    by (rule rounded_sum_bound [OF nn eta(1) b1 b2 b3 b4 b5])
  then show ?thesis
    by (simp only: T S eta(2))
qed

lemma double_arith_standard: "standard_model double_arith"
  unfolding standard_model_def
proof (intro conjI allI impI)
  fix x
  show "\<bar>rnd double_arith x - x\<bar> \<le> \<bar>x\<bar> / 10 ^ 15 + 1 / 10 ^ 300"
    using round_double_error [of x] by (simp add: double_arith_def)
next
  fix x :: real assume "0 \<le> x"
  then show "0 \<le> rnd double_arith x"
    by (simp add: double_arith_def round_double_nonneg)
next
  fix xs :: "real list" assume "length xs = 5 \<and> (\<forall>x \<in> set xs. 0 \<le> x)"
  then show "\<bar>fl_sum double_arith xs - sum_list xs\<bar> \<le> sum_list xs / 10 ^ 14 + 1 / 10 ^ 299"
    using double_sum_bound by blast
next
  fix b :: real and k :: int assume "0 \<le> b"
  then have "0 \<le> b powi k" by simp
  then show "0 \<le> fl_pow double_arith b k"
    by (simp add: double_arith_def round_double_nonneg)
qed

lemma sm_rnd_nonneg: "standard_model fa \<Longrightarrow> 0 \<le> x \<Longrightarrow> 0 \<le> rnd fa x"
  by (simp add: standard_model_def)

lemma sm_rnd_error:
  "standard_model fa \<Longrightarrow> \<bar>rnd fa x - x\<bar> \<le> \<bar>x\<bar> / 10 ^ 15 + 1 / 10 ^ 300"
  by (simp add: standard_model_def)

lemma sm_sum_error:
  "standard_model fa \<Longrightarrow> length xs = 5 \<Longrightarrow> \<forall>x \<in> set xs. 0 \<le> x \<Longrightarrow>
   \<bar>fl_sum fa xs - sum_list xs\<bar> \<le> sum_list xs / 10 ^ 14 + 1 / 10 ^ 299"
  by (simp add: standard_model_def)

lemma sm_pow_nonneg: "standard_model fa \<Longrightarrow> 0 \<le> b \<Longrightarrow> 0 \<le> fl_pow fa b k"
  by (simp add: standard_model_def)

lemma relevance_fl_nonneg:
  assumes sm: "standard_model fa" and cs: "0 \<le> dict_get (context_similarity c) 0"
  shows "0 \<le> calculate_relevance_weight_fl fa c"
proof -
  note nn = sm_rnd_nonneg [OF sm]
  have kw: "0 \<le> rnd fa (0 + rnd fa (rnd fa (real n) * rnd fa 0.1))" for n
    by (intro nn add_nonneg_nonneg mult_nonneg_nonneg) simp_all
  have sim: "0 \<le> rnd fa (r + rnd fa (x * rnd fa 0.5))" if "0 \<le> r" "0 \<le> x" for r x
    using that by (intro nn add_nonneg_nonneg mult_nonneg_nonneg) simp_all
  have one: "0 \<le> rnd fa 1.0"
    by (intro nn) simp
  show ?thesis
  proof (cases "context_similarity c")
    case None
    then show ?thesis
      using kw one by (simp add: calculate_relevance_weight_fl_def Let_def split: option.splits)
  next
    case (Some x)
    with cs have "0 \<le> x" by (simp add: dict_get_def)
    then show ?thesis
      using Some kw sim one
      by (simp add: calculate_relevance_weight_fl_def Let_def split: option.splits)
  qed
qed

lemma citation_fl_nonneg:
  assumes sm: "standard_model fa" and r: "calculate_citation_weight_fl fa c = Inr v"
    and cc: "0 \<le> dict_get (citation_count c) 0"
  shows "0 \<le> v"
proof -
  note nn = sm_rnd_nonneg [OF sm]
  from cc have "0 \<le> rnd fa (real_of_int (dict_get (citation_count c) 0) / citation_threshold)"
    by (intro nn) (simp add: citation_threshold_def)
  moreover have "0 \<le> rnd fa 1.0"
    by (intro nn) simp
  ultimately show ?thesis
    using r by (auto simp: calculate_citation_weight_fl_def Let_def split: if_splits)
qed

lemma hierarchy_fl_lower:
  assumes sm: "standard_model fa"
  shows "39 / 100 \<le> calculate_hierarchy_weight_fl fa c"
proof -
  define x where "x = dict_get (court_hierarchy_weights (dict_get (court_type c) ''District Court'')) 0.4"
  have x: "4 / 10 \<le> x" "x \<le> 1"
    by (simp_all add: x_def court_hierarchy_weights_def dict_get_def)
  have eta: "(1::real) / 10 ^ 300 \<le> 1 / 1000"
    by (intro divide_left_mono) simp_all
  from sm_rnd_error [OF sm, of x] x have "x - x / 10 ^ 15 - 1 / 10 ^ 300 \<le> rnd fa x"
    by (simp add: abs_le_iff)
  moreover have "x / 10 ^ 15 \<le> 1 / 1000"
    using x by simp
  ultimately have "39 / 100 \<le> rnd fa x"
    using x eta by linarith
  then show ?thesis
    by (simp add: calculate_hierarchy_weight_fl_def Let_def x_def)
qed

lemma outcome_fold_nonneg:
  assumes sm: "standard_model fa" and w: "\<forall>(factor, weight) \<in> set fs. 0 \<le> weight" and s: "0 \<le> s"
  shows "0 \<le> foldl (\<lambda>impact_score (factor, weight).
              if dict_get (factor c) False then rnd fa (impact_score + rnd fa weight)
              else impact_score) s fs"
  using w s
proof (induction fs arbitrary: s)
  case Nil
  then show ?case by simp
next
  case (Cons f fs)
  obtain factor weight where f: "f = (factor, weight)" by (cases f)
  with Cons.prems have wn: "0 \<le> weight" by simp
  have "0 \<le> rnd fa (s + rnd fa weight)"
    using Cons.prems(2) wn by (intro sm_rnd_nonneg [OF sm] add_nonneg_nonneg) simp_all
  with Cons.prems show ?case
    by (simp add: f Cons.IH)
qed

lemma outcome_fl_nonneg:
  assumes sm: "standard_model fa"
  shows "0 \<le> calculate_outcome_impact_fl fa c"
  unfolding calculate_outcome_impact_fl_def
  by (rule outcome_fold_nonneg [OF sm]) (simp_all add: impact_factors_def)

lemma temporal_fl_nonneg:
  assumes sm: "standard_model fa" and r: "calculate_temporal_weight_fl fa dt c = Inr t"
  shows "0 \<le> t"
proof -
  have "0 \<le> rnd fa 0.5"
    by (intro sm_rnd_nonneg [OF sm]) simp
  moreover have "0 \<le> fl_pow fa (rnd fa time_decay_factor) k" for k
    by (intro sm_pow_nonneg [OF sm] sm_rnd_nonneg [OF sm]) (simp add: time_decay_factor_def)
  ultimately show ?thesis
    using r
    by (auto simp: calculate_temporal_weight_fl_def Let_def split: option.splits if_splits)
qed

lemma raw_weights_fl_cases:
  assumes "raw_weights_fl fa dt c = Inr weights"
  shows "\<exists>cit t. calculate_citation_weight_fl fa c = Inr cit \<and>
           calculate_temporal_weight_fl fa dt c = Inr t \<and>
           weights = [(''relevance'', calculate_relevance_weight_fl fa c),
                      (''citation_frequency'', cit),
                      (''court_hierarchy'', calculate_hierarchy_weight_fl fa c),
                      (''case_outcome_impact'', calculate_outcome_impact_fl fa c),
                      (''temporal_relevance'', t)]"
  using assms by (auto simp: raw_weights_fl_def split: sum.splits)

text \<open>
  The core of the tolerance: five scores that are not negative, one of them at least
  0.39, their float sum, and the five rounded quotients.
\<close>

lemma normalised_sum_bound:
  fixes v1 v2 v3 v4 v5 T :: real
  assumes sm: "standard_model fa"
    and nn: "0 \<le> v1" "0 \<le> v2" "39 / 100 \<le> v3" "0 \<le> v4" "0 \<le> v5"
    and T: "T = fl_sum fa [v1, v2, v3, v4, v5]"
  shows "0 < T"
    and "\<bar>rnd fa (v1 / T) + rnd fa (v2 / T) + rnd fa (v3 / T) + rnd fa (v4 / T) +
          rnd fa (v5 / T) - 1\<bar> \<le> 1 / 10 ^ 12"
proof -
  define S where "S = v1 + v2 + v3 + v4 + v5"
  have S_low: "39 / 100 \<le> S"
    using nn by (simp add: S_def)
  have eta299: "(1::real) / 10 ^ 299 \<le> 1 / 10 ^ 15"
    by (intro divide_left_mono) simp_all
  have eta300: "(1::real) / 10 ^ 300 \<le> 1 / 10 ^ 15"
    by (intro divide_left_mono) simp_all
  have S_sum: "sum_list [v1, v2, v3, v4, v5] = S"
    by (simp add: S_def)
  have "\<forall>x \<in> set [v1, v2, v3, v4, v5]. 0 \<le> x"
    using nn by simp
  then have "\<bar>fl_sum fa [v1, v2, v3, v4, v5] - sum_list [v1, v2, v3, v4, v5]\<bar>
      \<le> sum_list [v1, v2, v3, v4, v5] / 10 ^ 14 + 1 / 10 ^ 299"
    by (intro sm_sum_error [OF sm]) simp_all
  then have "\<bar>T - S\<bar> \<le> S / 10 ^ 14 + 1 / 10 ^ 299"
    by (simp only: S_sum T)
  with eta299 have TS: "\<bar>T - S\<bar> \<le> S / 10 ^ 14 + 1 / 10 ^ 15"
    by linarith
  have "S / 10 ^ 14 \<le> S / 1000"
    using S_low by (intro divide_left_mono) simp_all
  with TS S_low have T_low: "38 / 100 \<le> T"
    by (simp add: abs_le_iff) 
  then show pos: "0 < T" by simp
  define Q where "Q = S / T"
  have Q_pos: "0 \<le> Q"
    using S_low pos by (simp add: Q_def)
  have S_eq: "S = Q * T"
    using pos by (simp add: Q_def)
  have "\<bar>Q - 1\<bar> = \<bar>S - T\<bar> / T"
    using pos by (simp add: Q_def field_simps abs_divide) 
  also have "\<dots> \<le> (S / 10 ^ 14 + 1 / 10 ^ 15) / T"
    using TS pos by (intro divide_right_mono) (simp_all add: abs_minus_commute)
  also have "\<dots> = Q / 10 ^ 14 + (1 / 10 ^ 15) / T"
    by (simp add: Q_def add_divide_distrib)
  also have "\<dots> \<le> Q / 10 ^ 14 + (1 / 10 ^ 15) / (38 / 100)"
    using T_low pos by (intro add_left_mono divide_left_mono) simp_all
  finally have Q1: "\<bar>Q - 1\<bar> \<le> Q / 10 ^ 14 + (1 / 10 ^ 15) / (38 / 100)" .
  have num: "(10::real) ^ 15 = 1000000000000000" "(10::real) ^ 14 = 100000000000000"
    "(10::real) ^ 13 = 10000000000000" "(10::real) ^ 12 = 1000000000000"
    by simp_all
  from Q1 have Q_up: "Q \<le> 2"
    unfolding num by argo
  from Q1 Q_up Q_pos have Q_close: "\<bar>Q - 1\<bar> \<le> 1 / 10 ^ 13"
    unfolding num by argo
  have q: "\<bar>rnd fa (v / T) - v / T\<bar> \<le> (v / T) / 10 ^ 15 + 1 / 10 ^ 15" if "0 \<le> v" for v
  proof -
    from that pos have "0 \<le> v / T" by simp
    with sm_rnd_error [OF sm, of "v / T"] eta300 show ?thesis
      by simp
  qed
  have v3: "0 \<le> v3" using nn(3) by simp
  define W where "W = rnd fa (v1 / T) + rnd fa (v2 / T) + rnd fa (v3 / T) + rnd fa (v4 / T) +
          rnd fa (v5 / T)"
  have Q_sum: "Q = v1 / T + v2 / T + v3 / T + v4 / T + v5 / T"
    by (simp add: Q_def S_def add_divide_distrib)
  have "\<bar>W - Q\<bar> \<le> Q / 10 ^ 15 + 5 / 10 ^ 15"
    using q [OF nn(1)] q [OF nn(2)] q [OF v3] q [OF nn(4)] q [OF nn(5)]
    unfolding W_def Q_sum num by argo
  with Q_close Q_up Q_pos have "\<bar>W - 1\<bar> \<le> 1 / 10 ^ 12"
    unfolding num by argo
  then show "\<bar>rnd fa (v1 / T) + rnd fa (v2 / T) + rnd fa (v3 / T) + rnd fa (v4 / T) +
          rnd fa (v5 / T) - 1\<bar> \<le> 1 / 10 ^ 12"
    by (simp only: W_def)
qed

text \<open>
  Further values that binary64 represents exactly.
\<close>

lemma round_double_more_values:
  "round_double 0 = 0" "round_double (3 / 2) = 3 / 2" "round_double 2 = 2"
  "round_double (1 / 4) = 1 / 4"
proof -
  show "round_double 0 = 0"
    by (simp add: round_double_def)
  show "round_double (3 / 2) = 3 / 2"
    by (rule round_double_exact [of _ "3 * 2 ^ 51" "- 52"]) simp_all
  show "round_double 2 = 2"
    by (rule round_double_exact [of _ "2 ^ 52" "- 51"]) simp_all
  show "round_double (1 / 4) = 1 / 4"
    by (rule round_double_exact [of _ "2 ^ 52" "- 54"]) simp_all
qed

text \<open>
  With the arithmetic that does not round, and apart from OverflowError,
  \<^const>\<open>weight_points_fl\<close> is \<^const>\<open>weight_points\<close>.
\<close>

lemma outcome_exact:
  "foldl (\<lambda>impact_score (factor, weight).
              if dict_get (factor c) False then impact_score + weight else impact_score) s fs =
   foldl (\<lambda>impact_score (factor, weight).
              if dict_get (factor c) False then rnd exact_arith (impact_score + rnd exact_arith weight)
              else impact_score) s fs"
  by (induction fs arbitrary: s) (auto simp: exact_arith_def)

lemma weight_points_fl_exact:
  assumes "weight_points_fl exact_arith dt c \<noteq> Inl OverflowError"
  shows "weight_points_fl exact_arith dt c = weight_points dt c"
proof -
  have r: "calculate_relevance_weight_fl exact_arith c = calculate_relevance_weight c"
    by (simp add: calculate_relevance_weight_fl_def calculate_relevance_weight_def exact_arith_def
        Let_def split: option.splits)
  have h: "calculate_hierarchy_weight_fl exact_arith c = calculate_hierarchy_weight c"
    by (simp add: calculate_hierarchy_weight_fl_def calculate_hierarchy_weight_def exact_arith_def
        Let_def)
  have o: "calculate_outcome_impact_fl exact_arith c = calculate_outcome_impact c"
    by (simp only: calculate_outcome_impact_fl_def calculate_outcome_impact_def outcome_exact)
  have ci: "calculate_citation_weight_fl exact_arith c = Inr (calculate_citation_weight c)"
    if "calculate_citation_weight_fl exact_arith c \<noteq> Inl OverflowError"
    using that
    by (auto simp: calculate_citation_weight_fl_def calculate_citation_weight_def exact_arith_def
        Let_def split: if_splits)
  have t: "calculate_temporal_weight_fl exact_arith dt c = calculate_temporal_weight dt c"
    if "calculate_temporal_weight_fl exact_arith dt c \<noteq> Inl OverflowError"
    using that
    by (auto simp: calculate_temporal_weight_fl_def calculate_temporal_weight_def exact_arith_def
        Let_def split: option.splits if_splits)
  from assms have no1: "calculate_citation_weight_fl exact_arith c \<noteq> Inl OverflowError"
    by (auto simp: weight_points_fl_def raw_weights_fl_def)
  from assms ci [OF no1]
  have no2: "calculate_temporal_weight_fl exact_arith dt c \<noteq> Inl OverflowError"
    by (auto simp: weight_points_fl_def raw_weights_fl_def)
  have raw: "raw_weights_fl exact_arith dt c = raw_weights dt c"
    by (simp add: raw_weights_fl_def raw_weights_def r ci [OF no1] h o t [OF no2]
        split: sum.splits)
  show ?thesis
    unfolding weight_points_fl_def weight_points_def raw
    by (simp add: exact_arith_def Let_def split: sum.splits)
qed

text \<open>
  C6, as stated, fails.  With \<^verbatim>\<open>context_similarity = -1.0\<close> and the court
  \<^verbatim>\<open>State Appellate Court\<close> the raw scores are -0.5, 0.0, 0.5, 0.0 and 0.5, all exact
  in binary64, their float sum is 0.5, and the returned vector has the negative
  factor \<^verbatim>\<open>relevance = -1.0\<close>.
\<close>

theorem C6_negative_factor_counterexample:
  "weight_points_fl double_arith (datetime_in 2026)
     \<lparr>case_keywords = None, context_similarity = Some (- 1), citation_count = None,
      court_type = Some ''State Appellate Court'', precedent_setting = None,
      overturned_previous = None, widely_cited = None, current_relevance = None,
      date = None\<rparr>
     = Inr [(''relevance'', - 1), (''citation_frequency'', 0), (''court_hierarchy'', 1),
            (''case_outcome_impact'', 0), (''temporal_relevance'', 1)]"
  by (simp add: weight_points_fl_def raw_weights_fl_def calculate_temporal_weight_fl_def
      calculate_relevance_weight_fl_def calculate_citation_weight_fl_def citation_threshold_def
      float_overflow_def calculate_hierarchy_weight_fl_def court_hierarchy_weights_def
      calculate_outcome_impact_fl_def impact_factors_def dict_get_def double_arith_def
      round_double_values round_double_more_values)

text \<open>
  C6, amended: for every case input whose \<^verbatim>\<open>citation_count\<close> and
  \<^verbatim>\<open>context_similarity\<close>, where present, are not negative, every WeightVector
  returned by \<^verbatim>\<open>weight_points\<close> has values summing to 1.0 within the floating-point
  tolerance 1e-9 (the exact sum of the five floats, and their float sum as well) and
  no negative factor.  This holds in every float arithmetic that meets
  \<^const>\<open>standard_model\<close>, in which the rounding of each operation is explicit.
\<close>

theorem C6_weight_vector:
  "standard_model fa \<and> weight_points_fl fa dt c = Inr wv \<and>
   0 \<le> dict_get (citation_count c) 0 \<and> 0 \<le> dict_get (context_similarity c) 0 \<longrightarrow>
     \<bar>sum_list (map snd wv) - 1\<bar> \<le> 1 / 10 ^ 9 \<and>
     \<bar>fl_sum fa (map snd wv) - 1\<bar> \<le> 1 / 10 ^ 9 \<and>
     (\<forall>v \<in> set (map snd wv). 0 \<le> v)"
proof
  assume h: "standard_model fa \<and> weight_points_fl fa dt c = Inr wv \<and>
    0 \<le> dict_get (citation_count c) 0 \<and> 0 \<le> dict_get (context_similarity c) 0"
  then have sm: "standard_model fa" and ret: "weight_points_fl fa dt c = Inr wv"
    and cc: "0 \<le> dict_get (citation_count c) 0" and cs: "0 \<le> dict_get (context_similarity c) 0"
    by simp_all
  from ret obtain weights where
    r: "raw_weights_fl fa dt c = Inr weights" and
    wv: "wv = map (\<lambda>(k, v). (k, rnd fa (v / fl_sum fa (map snd weights)))) weights"
    by (auto simp: weight_points_fl_def Let_def split: sum.splits if_splits)
  from raw_weights_fl_cases [OF r] obtain cit t where
    cit: "calculate_citation_weight_fl fa c = Inr cit" and
    t: "calculate_temporal_weight_fl fa dt c = Inr t" and
    w: "weights = [(''relevance'', calculate_relevance_weight_fl fa c),
                   (''citation_frequency'', cit),
                   (''court_hierarchy'', calculate_hierarchy_weight_fl fa c),
                   (''case_outcome_impact'', calculate_outcome_impact_fl fa c),
                   (''temporal_relevance'', t)]"
    by blast
  define v1 where "v1 = calculate_relevance_weight_fl fa c"
  define v3 where "v3 = calculate_hierarchy_weight_fl fa c"
  define v4 where "v4 = calculate_outcome_impact_fl fa c"
  define T where "T = fl_sum fa [v1, cit, v3, v4, t]"
  have nn: "0 \<le> v1" "0 \<le> cit" "39 / 100 \<le> v3" "0 \<le> v4" "0 \<le> t"
    unfolding v1_def v3_def v4_def
    by (rule relevance_fl_nonneg [OF sm cs] citation_fl_nonneg [OF sm cit cc]
        hierarchy_fl_lower [OF sm] outcome_fl_nonneg [OF sm] temporal_fl_nonneg [OF sm t])+
  have T_eq: "fl_sum fa (map snd weights) = T"
    by (simp add: w T_def v1_def v3_def v4_def)
  define ws where "ws = [rnd fa (v1 / T), rnd fa (cit / T), rnd fa (v3 / T), rnd fa (v4 / T),
    rnd fa (t / T)]"
  have vals: "map snd wv = ws"
    unfolding wv T_eq by (simp add: w ws_def v1_def v3_def v4_def)
  from normalised_sum_bound [OF sm nn T_def]
  have pos: "0 < T" and
    close: "\<bar>rnd fa (v1 / T) + rnd fa (cit / T) + rnd fa (v3 / T) + rnd fa (v4 / T) +
          rnd fa (t / T) - 1\<bar> \<le> 1 / 10 ^ 12"
    by simp_all
  have ws_nn: "\<forall>v \<in> set ws. 0 \<le> v"
    using nn pos by (simp add: ws_def sm_rnd_nonneg [OF sm])
  have sum_ws: "sum_list ws = rnd fa (v1 / T) + rnd fa (cit / T) + rnd fa (v3 / T) +
      rnd fa (v4 / T) + rnd fa (t / T)"
    by (simp add: ws_def)
  have num: "(10::real) ^ 14 = 100000000000000" "(10::real) ^ 12 = 1000000000000"
    "(10::real) ^ 9 = 1000000000"
    by simp_all
  have eta: "(1::real) / 10 ^ 299 \<le> 1 / 10 ^ 12"
    by (intro divide_left_mono) simp_all
  from close have c1: "\<bar>sum_list ws - 1\<bar> \<le> 1 / 10 ^ 12"
    by (simp only: sum_ws)
  have "\<bar>fl_sum fa ws - sum_list ws\<bar> \<le> sum_list ws / 10 ^ 14 + 1 / 10 ^ 299"
    by (rule sm_sum_error [OF sm _ ws_nn]) (simp add: ws_def)
  with eta have c2: "\<bar>fl_sum fa ws - sum_list ws\<bar> \<le> sum_list ws / 10 ^ 14 + 1 / 10 ^ 12"
    by linarith
  from c1 have e1: "\<bar>sum_list ws - 1\<bar> \<le> 1 / 10 ^ 9"
    unfolding num by argo
  from c1 c2 have e2: "\<bar>fl_sum fa ws - 1\<bar> \<le> 1 / 10 ^ 9"
    unfolding num by argo
  from e1 e2 ws_nn show "\<bar>sum_list (map snd wv) - 1\<bar> \<le> 1 / 10 ^ 9 \<and>
     \<bar>fl_sum fa (map snd wv) - 1\<bar> \<le> 1 / 10 ^ 9 \<and>
     (\<forall>v \<in> set (map snd wv). 0 \<le> v)"
    by (simp only: vals)
qed

theorem C6_weight_vector_witness:
  "weight_points_fl double_arith (datetime_in 2026)
     \<lparr>case_keywords = None, context_similarity = Some 1, citation_count = Some 25,
      court_type = Some ''State Appellate Court'', precedent_setting = None,
      overturned_previous = None, widely_cited = None, current_relevance = None,
      date = None\<rparr>
     = Inr [(''relevance'', 1 / 4), (''citation_frequency'', 1 / 4), (''court_hierarchy'', 1 / 4),
            (''case_outcome_impact'', 0), (''temporal_relevance'', 1 / 4)] \<and>
   \<bar>sum_list (map snd
      [(''relevance'', 1 / 4 :: real), (''citation_frequency'', 1 / 4),
       (''court_hierarchy'', 1 / 4), (''case_outcome_impact'', 0),
       (''temporal_relevance'', 1 / 4)]) - 1\<bar> \<le> 1 / 10 ^ 9 \<and>
   list_all (\<lambda>v. 0 \<le> v) (map snd
      [(''relevance'', 1 / 4 :: real), (''citation_frequency'', 1 / 4),
       (''court_hierarchy'', 1 / 4), (''case_outcome_impact'', 0),
       (''temporal_relevance'', 1 / 4)])"
proof -
  let ?c = "\<lparr>case_keywords = None, context_similarity = Some 1, citation_count = Some 25,
      court_type = Some ''State Appellate Court'', precedent_setting = None,
      overturned_previous = None, widely_cited = None, current_relevance = None,
      date = None\<rparr>"
  let ?wv = "[(''relevance'', 1 / 4 :: real), (''citation_frequency'', 1 / 4),
       (''court_hierarchy'', 1 / 4), (''case_outcome_impact'', 0),
       (''temporal_relevance'', 1 / 4)]"
  have wv: "weight_points_fl double_arith (datetime_in 2026) ?c = Inr ?wv"
    by (simp add: weight_points_fl_def raw_weights_fl_def calculate_temporal_weight_fl_def
      calculate_relevance_weight_fl_def calculate_citation_weight_fl_def citation_threshold_def
      float_overflow_def calculate_hierarchy_weight_fl_def court_hierarchy_weights_def
      calculate_outcome_impact_fl_def impact_factors_def dict_get_def double_arith_def
      round_double_values round_double_more_values)
  from C6_weight_vector [of double_arith "datetime_in 2026" ?c ?wv] double_arith_standard wv
  have "\<bar>sum_list (map snd ?wv) - 1\<bar> \<le> 1 / 10 ^ 9"
    and "\<forall>v \<in> set (map snd ?wv). 0 \<le> v"
    by (simp_all add: dict_get_def)
  then have "\<bar>sum_list (map snd ?wv) - 1\<bar> \<le> 1 / 10 ^ 9"
    and "list_all (\<lambda>v. 0 \<le> v) (map snd ?wv)"
    by (simp_all add: list_all_iff)
  with wv show ?thesis by blast
qed

end
